theory Spec2Isabelle
  imports Main "HOL-Library.Word" "HOL-Library.Sublist"
begin

section \<open>SecretBid\_FHE: the auction contract\<close>

text \<open>
  A shallow embedding of \<^verbatim>\<open>contracts/SecretBid_FHE.sol\<close>. Storage is a record that
  every external function takes and returns; a \<^verbatim>\<open>require\<close> that fails, a checked
  addition that overflows and a reverting library call are values of \<open>error\<close>.
\<close>

subsection \<open>Solidity value types\<close>

type_synonym uint256 = "256 word"
type_synonym uint32 = "32 word"
type_synonym address = "160 word"
type_synonym bytes32 = "256 word"
type_synonym bytes = "8 word list"

text \<open>\<^verbatim>\<open>euint32\<close> and \<^verbatim>\<open>externalEuint32\<close> are user-defined value types over
  \<^verbatim>\<open>bytes32\<close>: a ciphertext handle.\<close>

type_synonym euint32 = bytes32
type_synonym externalEuint32 = bytes32

subsection \<open>Storage layout\<close>

record Auction =
  nftId :: string
  startTime :: uint256
  endTime :: uint256
  highestBidder :: address
  highestBid :: euint32
  isActive :: bool

record Bid =
  bidder :: address
  encryptedBid :: euint32
  timestamp :: uint256

datatype event =
    AuctionCreated string uint256 uint256
  | BidPlaced string address
  | AuctionConcluded string address uint32

text \<open>
  The three storage mappings are total, as Solidity mappings are: a key never written
  reads as the zero value. \<open>events\<close> is the log of emitted events, and the two
  \<open>acl\<close> fields record the handles passed to \<^verbatim>\<open>FHE.allowThis\<close> and
  \<^verbatim>\<open>FHE.makePubliclyDecryptable\<close>.
\<close>

record contract =
  auctions :: "string \<Rightarrow> Auction"
  bids :: "string \<Rightarrow> Bid list"
  auctionExists :: "string \<Rightarrow> bool"
  events :: "event list"
  acl_allowThis :: "euint32 set"
  acl_publiclyDecryptable :: "euint32 set"

definition zero_Auction :: Auction where
  "zero_Auction =
     \<lparr>nftId = [], startTime = 0, endTime = 0, highestBidder = 0, highestBid = 0,
      isActive = False\<rparr>"

definition deployed :: contract where
  "deployed =
     \<lparr>auctions = (\<lambda>_. zero_Auction), bids = (\<lambda>_. []), auctionExists = (\<lambda>_. False),
      events = [], acl_allowThis = {}, acl_publiclyDecryptable = {}\<rparr>"

subsection \<open>Errors\<close>

text \<open>
  One constructor per way a call reverts, named as the specification's error taxonomy
  names them; \<open>reason\<close> gives the revert string of the source where there is one.
\<close>

datatype error =
    NotFound
  | Inactive
  | NotYetOpen
  | Expired
  | AlreadyExists
  | InvalidCiphertext
  | StillActive
  | AlreadyConcluded
  | InvalidProof
  | ArithmeticOverflow
  | InputProofRejected
  | AbiDecodeFailed

fun reason :: "error \<Rightarrow> string" where
  "reason NotFound = ''Auction does not exist''"
| "reason Inactive = ''Auction is not active''"
| "reason NotYetOpen = ''Auction has not started''"
| "reason Expired = ''Auction has ended''"
| "reason AlreadyExists = ''Auction already exists''"
| "reason InvalidCiphertext = ''Invalid encrypted bid''"
| "reason StillActive = ''Auction is still active''"
| "reason AlreadyConcluded = ''Auction already concluded''"
| "reason InvalidProof = []"
| "reason ArithmeticOverflow = []"
| "reason InputProofRejected = []"
| "reason AbiDecodeFailed = []"

subsection \<open>The FHE library\<close>

text \<open>
  Modelled from the spec: the library \<^verbatim>\<open>@fhevm/solidity/lib/FHE.sol\<close> is imported by the
  contract and is not part of the sources. It is a parameter of every function here:
  \<^item> \<open>FHE_zero n\<close> is the handle \<^verbatim>\<open>FHE.zero(n)\<close> returns (the specification's
    encrypted zero);
  \<^item> \<open>FHE_fromExternal c p\<close> is the handle \<^verbatim>\<open>FHE.fromExternal(c, p)\<close> returns, or
    \<open>None\<close> when the library rejects the input proof and reverts;
  \<^item> \<open>FHE_cleartext h\<close> is the plaintext the handle \<open>h\<close> stands for; the contract never
    reads it, only the comparison below does;
  \<^item> \<open>FHE_checkSignatures reg hs clear proof\<close> holds when \<^verbatim>\<open>FHE.checkSignatures\<close>
    returns, and fails when it reverts. The library decides on the handles \<open>hs\<close>, the
    cleartext bytes and the decryption proof it is called with, and on \<open>reg\<close>, the
    handles registered so far as publicly decryptable: the specification's verification
    protocol never accepts a cleartext for a handle that was not registered.
\<close>

record FHE =
  FHE_zero :: "nat \<Rightarrow> euint32"
  FHE_fromExternal :: "externalEuint32 \<Rightarrow> bytes \<Rightarrow> euint32 option"
  FHE_cleartext :: "euint32 \<Rightarrow> uint32"
  FHE_checkSignatures :: "euint32 set \<Rightarrow> bytes32 list \<Rightarrow> bytes \<Rightarrow> bytes \<Rightarrow> bool"

text \<open>
  Modelled from the spec: \<^verbatim>\<open>FHE.isInitialized\<close>, the validity flag of a handle, and
  \<^verbatim>\<open>FHE.toBytes32\<close>, of the same library. A handle is valid when it is not the zero
  word, and its \<^verbatim>\<open>bytes32\<close> is the handle itself.
\<close>

definition FHE_isInitialized :: "euint32 \<Rightarrow> bool" where
  "FHE_isInitialized v = (v \<noteq> 0)"

text \<open>
  Modelled from the spec: \<^verbatim>\<open>FHE.gt(a, b)\<close> used as the condition of an \<^verbatim>\<open>if\<close>. The
  condition holds when the encrypted comparison indicates that \<open>a\<close> is greater: the
  plaintext of \<open>a\<close> is strictly greater than the plaintext of \<open>b\<close>.
\<close>

definition FHE_gt :: "FHE \<Rightarrow> euint32 \<Rightarrow> euint32 \<Rightarrow> bool" where
  "FHE_gt fhe a b = (FHE_cleartext fhe b < FHE_cleartext fhe a)"

definition FHE_toBytes32 :: "euint32 \<Rightarrow> bytes32" where
  "FHE_toBytes32 h = h"

subsection \<open>ABI decoding\<close>

text \<open>
  \<^verbatim>\<open>abi.decode(data, (uint32))\<close> reads the first 32 bytes of \<open>data\<close> as a big-endian
  number; it reverts when \<open>data\<close> is shorter than 32 bytes or the number does not fit
  32 bits.
\<close>

definition be_nat :: "bytes \<Rightarrow> nat" where
  "be_nat bs = foldl (\<lambda>acc b. acc * 256 + unat b) 0 bs"

definition abi_decode_uint32 :: "bytes \<Rightarrow> uint32 option" where
  "abi_decode_uint32 bs =
     (if length bs < 32 then None
      else let v = be_nat (take 32 bs)
           in if v < 2 ^ 32 then Some (of_nat v) else None)"

definition abi_encode_uint32 :: "uint32 \<Rightarrow> bytes" where
  "abi_encode_uint32 w = replicate 28 0 @ map (\<lambda>i. ucast (drop_bit (8 * i) w)) [3, 2, 1, 0]"

subsection \<open>The external functions\<close>

text \<open>
  Each function takes \<^verbatim>\<open>block.timestamp\<close> (\<open>now\<close>), \<^verbatim>\<open>msg.sender\<close> where the
  source reads it, its arguments and the storage. It returns the error the call reverts
  with, if any, and the storage as the function body leaves it at that point; what the
  EVM commits is \<open>commit\<close> below.
\<close>

definition createAuction ::
  "FHE \<Rightarrow> uint256 \<Rightarrow> string \<Rightarrow> uint256 \<Rightarrow> contract \<Rightarrow> error option \<times> contract" where
  "createAuction fhe now nftId' duration s =
     (if auctionExists s nftId' then (Some AlreadyExists, s)
      else let startTime' = now in
        if 2 ^ 256 \<le> unat startTime' + unat duration then (Some ArithmeticOverflow, s)
        else let
          endTime' = startTime' + duration;
          s1 = s\<lparr>auctions := (auctions s)(nftId' :=
                 \<lparr>nftId = nftId', startTime = startTime', endTime = endTime',
                  highestBidder = 0, highestBid = FHE_zero fhe 16, isActive = True\<rparr>)\<rparr>;
          s2 = s1\<lparr>auctionExists := (auctionExists s1)(nftId' := True)\<rparr>
        in (None, s2\<lparr>events := events s2 @ [AuctionCreated nftId' startTime' endTime']\<rparr>))"

text \<open>The modifier \<^verbatim>\<open>onlyActiveAuction\<close>: its four checks, in the source's order.\<close>

definition onlyActiveAuction :: "uint256 \<Rightarrow> string \<Rightarrow> contract \<Rightarrow> error option" where
  "onlyActiveAuction now nftId' s =
     (if \<not> auctionExists s nftId' then Some NotFound
      else if \<not> isActive (auctions s nftId') then Some Inactive
      else if \<not> startTime (auctions s nftId') \<le> now then Some NotYetOpen
      else if \<not> now \<le> endTime (auctions s nftId') then Some Expired
      else None)"

text \<open>The condition of the \<^verbatim>\<open>if\<close> in \<^verbatim>\<open>placeBid\<close>.\<close>

definition outbids :: "FHE \<Rightarrow> euint32 \<Rightarrow> string \<Rightarrow> contract \<Rightarrow> bool" where
  "outbids fhe encryptedBidValue nftId' s =
     FHE_gt fhe encryptedBidValue (highestBid (auctions s nftId'))"

definition placeBid ::
  "FHE \<Rightarrow> uint256 \<Rightarrow> address \<Rightarrow> string \<Rightarrow> externalEuint32 \<Rightarrow> bytes \<Rightarrow> contract
     \<Rightarrow> error option \<times> contract" where
  "placeBid fhe now sender nftId' encryptedBid' inputProof s =
     (case onlyActiveAuction now nftId' s of
        Some e \<Rightarrow> (Some e, s)
      | None \<Rightarrow>
         (case FHE_fromExternal fhe encryptedBid' inputProof of
            None \<Rightarrow> (Some InputProofRejected, s)
          | Some encryptedBidValue \<Rightarrow>
              if \<not> FHE_isInitialized encryptedBidValue then (Some InvalidCiphertext, s)
              else let
                newBid = \<lparr>bidder = sender, encryptedBid = encryptedBidValue, timestamp = now\<rparr>;
                s1 = s\<lparr>bids := (bids s)(nftId' := bids s nftId' @ [newBid])\<rparr>;
                s2 = (if outbids fhe encryptedBidValue nftId' s1
                      then s1\<lparr>auctions := (auctions s1)(nftId' :=
                             (auctions s1 nftId')\<lparr>highestBid := encryptedBidValue,
                                                  highestBidder := sender\<rparr>)\<rparr>
                      else s1);
                s3 = s2\<lparr>acl_allowThis := insert encryptedBidValue (acl_allowThis s2)\<rparr>;
                s4 = s3\<lparr>acl_publiclyDecryptable :=
                          insert encryptedBidValue (acl_publiclyDecryptable s3)\<rparr>
              in (None, s4\<lparr>events := events s4 @ [BidPlaced nftId' sender]\<rparr>)))"

definition concludeAuction ::
  "FHE \<Rightarrow> uint256 \<Rightarrow> string \<Rightarrow> bytes \<Rightarrow> bytes \<Rightarrow> contract \<Rightarrow> error option \<times> contract" where
  "concludeAuction fhe now nftId' abiEncodedClearBid decryptionProof s =
     (if \<not> auctionExists s nftId' then (Some NotFound, s)
      else if \<not> endTime (auctions s nftId') < now then (Some StillActive, s)
      else if \<not> isActive (auctions s nftId') then (Some AlreadyConcluded, s)
      else let cts = [FHE_toBytes32 (highestBid (auctions s nftId'))] in
        if \<not> FHE_checkSignatures fhe (acl_publiclyDecryptable s) cts abiEncodedClearBid
                 decryptionProof
        then (Some InvalidProof, s)
        else
          (case abi_decode_uint32 abiEncodedClearBid of
             None \<Rightarrow> (Some AbiDecodeFailed, s)
           | Some winningBid \<Rightarrow>
               let winner = highestBidder (auctions s nftId');
                   s1 = s\<lparr>auctions := (auctions s)(nftId' :=
                          (auctions s nftId')\<lparr>isActive := False\<rparr>)\<rparr>
               in (None, s1\<lparr>events := events s1 @ [AuctionConcluded nftId' winner winningBid]\<rparr>)))"

definition getBidCount :: "string \<Rightarrow> contract \<Rightarrow> error + nat" where
  "getBidCount nftId' s =
     (if \<not> auctionExists s nftId' then Inl NotFound else Inr (length (bids s nftId')))"

definition getHighestBid :: "string \<Rightarrow> contract \<Rightarrow> error + euint32" where
  "getHighestBid nftId' s =
     (if \<not> auctionExists s nftId' then Inl NotFound else Inr (highestBid (auctions s nftId')))"

subsection \<open>Transactions\<close>

text \<open>
  A transaction is one external call with its \<^verbatim>\<open>block.timestamp\<close> and, for a bid, its
  \<^verbatim>\<open>msg.sender\<close>. A call that reverts commits nothing.
\<close>

datatype tx =
    CreateAuction uint256 string uint256
  | PlaceBid uint256 address string externalEuint32 bytes
  | ConcludeAuction uint256 string bytes bytes

fun call :: "FHE \<Rightarrow> tx \<Rightarrow> contract \<Rightarrow> error option \<times> contract" where
  "call fhe (CreateAuction now i d) s = createAuction fhe now i d s"
| "call fhe (PlaceBid now sender i c p) s = placeBid fhe now sender i c p s"
| "call fhe (ConcludeAuction now i clear p) s = concludeAuction fhe now i clear p s"

definition commit :: "FHE \<Rightarrow> contract \<Rightarrow> tx \<Rightarrow> contract" where
  "commit fhe s t = (case call fhe t s of (None, s') \<Rightarrow> s' | (Some e, _) \<Rightarrow> s)"

definition run :: "FHE \<Rightarrow> contract \<Rightarrow> tx list \<Rightarrow> contract" where
  "run fhe s ts = foldl (commit fhe) s ts"

subsection \<open>The registry as a fold of the ledger\<close>

text \<open>
  \<open>running_max\<close> replays the update step of \<^verbatim>\<open>placeBid\<close> over a ledger, from a given
  highest bidder and highest-bid handle.
\<close>

fun running_max :: "FHE \<Rightarrow> address \<times> euint32 \<Rightarrow> Bid list \<Rightarrow> address \<times> euint32" where
  "running_max fhe acc [] = acc"
| "running_max fhe acc (b # bs) =
     running_max fhe
       (if FHE_gt fhe (encryptedBid b) (snd acc) then (bidder b, encryptedBid b) else acc) bs"

definition registry_follows_ledger :: "FHE \<Rightarrow> contract \<Rightarrow> bool" where
  "registry_follows_ledger fhe s =
     (\<forall>i. if auctionExists s i
          then (highestBidder (auctions s i), highestBid (auctions s i)) =
                 running_max fhe (0, FHE_zero fhe 16) (bids s i)
               \<and> startTime (auctions s i) \<le> endTime (auctions s i)
          else bids s i = [])"

text \<open>
  The winner in the specification's words: the plaintext of a bid, the maximal plaintext
  of a non-empty ledger, and the bidder of the first bid of the ledger that has it.
\<close>

definition bid_value :: "FHE \<Rightarrow> Bid \<Rightarrow> uint32" where
  "bid_value fhe b = FHE_cleartext fhe (encryptedBid b)"

definition max_bid_value :: "FHE \<Rightarrow> Bid list \<Rightarrow> uint32" where
  "max_bid_value fhe bs = Max (bid_value fhe ` set bs)"

definition first_max_bidder :: "FHE \<Rightarrow> Bid list \<Rightarrow> address option" where
  "first_max_bidder fhe bs =
     map_option bidder (find (\<lambda>b. bid_value fhe b = max_bid_value fhe bs) bs)"

text \<open>The senders of the bids of a list of transactions.\<close>

fun bid_sender :: "tx \<Rightarrow> address option" where
  "bid_sender (PlaceBid now sender i c p) = Some sender"
| "bid_sender _ = None"

definition senders_nonzero :: "tx list \<Rightarrow> bool" where
  "senders_nonzero ts = (Some 0 \<notin> set (map bid_sender ts))"

subsection \<open>A test double of the library, and the specification's scenario\<close>

text \<open>
  \<open>mock_FHE dec\<close> is a library whose handles decrypt as \<open>dec\<close> says: it accepts every
  external ciphertext that comes with a non-empty input proof, keeping its handle, and a
  decryption proof when it is non-empty, every handle is registered as publicly
  decryptable and the cleartext bytes are the encodings of the decryptions of the
  handles. In \<open>test_FHE\<close> a handle carries its plaintext above its low byte;
  \<open>FHE_zero 16\<close> is the handle 16, which decrypts to 0.
\<close>

definition mock_FHE :: "(euint32 \<Rightarrow> uint32) \<Rightarrow> FHE" where
  "mock_FHE dec =
     \<lparr>FHE_zero = of_nat,
      FHE_fromExternal = (\<lambda>c p. if p = [] then None else Some c),
      FHE_cleartext = dec,
      FHE_checkSignatures = (\<lambda>reg hs clear proof.
         proof \<noteq> [] \<and> set hs \<subseteq> reg
         \<and> clear = concat (map (\<lambda>h. abi_encode_uint32 (dec h)) hs))\<rparr>"

definition high_bits :: "euint32 \<Rightarrow> uint32" where
  "high_bits h = ucast (drop_bit 8 h)"

definition test_FHE :: FHE where
  "test_FHE = mock_FHE high_bits"

text \<open>
  Auction \<open>nft-1\<close> of 3600 seconds created at 1000; bidder 10 bids 50 at 1100 (handle
  \<open>50 * 256 + 1\<close>), bidder 11 bids 80 at 1200, bidder 12 bids 30 at 1300.
\<close>

definition scenario :: "tx list" where
  "scenario =
     [CreateAuction 1000 ''nft-1'' 3600,
      PlaceBid 1100 10 ''nft-1'' 12801 [1],
      PlaceBid 1200 11 ''nft-1'' 20482 [1],
      PlaceBid 1300 12 ''nft-1'' 7683 [1]]"

definition after_bids :: contract where
  "after_bids = run test_FHE deployed scenario"

definition after_create :: contract where
  "after_create = run test_FHE deployed [CreateAuction 1000 ''nft-1'' 3600]"

definition after_conclusion :: contract where
  "after_conclusion =
     commit test_FHE after_bids (ConcludeAuction 4700 ''nft-1'' (abi_encode_uint32 80) [1])"

text \<open>Auction \<open>nft-1\<close> with one bid, by bidder 10, of plaintext 0 (handle 4).\<close>

definition after_zero_bid :: contract where
  "after_zero_bid =
     run test_FHE deployed
       [CreateAuction 1000 ''nft-1'' 3600, PlaceBid 1100 10 ''nft-1'' 4 [1]]"

text \<open>The scenario followed by a fourth bid, by bidder 13, of plaintext 80 again.\<close>

definition after_tie :: contract where
  "after_tie = run test_FHE after_bids [PlaceBid 1400 13 ''nft-1'' 20484 [1]]"

text \<open>The scenario up to its first bid.\<close>

definition after_first_bid :: contract where
  "after_first_bid =
     run test_FHE deployed
       [CreateAuction 1000 ''nft-1'' 3600, PlaceBid 1100 10 ''nft-1'' 12801 [1]]"

section \<open>Basic facts\<close>

lemma be_nat_zeros: "be_nat (replicate n 0 @ bs) = be_nat bs"
  by (induction n) (simp_all add: be_nat_def)

lemma decode_encode_80: "abi_decode_uint32 (abi_encode_uint32 80) = Some 80"
  by (simp add: abi_decode_uint32_def abi_encode_uint32_def be_nat_zeros)
     (simp add: be_nat_def)

lemmas eval_defs =
  run_def commit_def createAuction_def placeBid_def concludeAuction_def deployed_def
  mock_FHE_def test_FHE_def high_bits_def onlyActiveAuction_def outbids_def FHE_gt_def
  FHE_isInitialized_def FHE_toBytes32_def Let_def

lemma after_bids_auction:
  "auctions after_bids ''nft-1'' =
     \<lparr>nftId = ''nft-1'', startTime = 1000, endTime = 4600, highestBidder = 11,
      highestBid = 20482, isActive = True\<rparr>"
  by (simp add: after_bids_def scenario_def eval_defs)

lemma after_bids_exists: "auctionExists after_bids ''nft-1''"
  by (simp add: after_bids_def scenario_def eval_defs)

lemma after_bids_ledger:
  "bids after_bids ''nft-1'' =
     [\<lparr>bidder = 10, encryptedBid = 12801, timestamp = 1100\<rparr>,
      \<lparr>bidder = 11, encryptedBid = 20482, timestamp = 1200\<rparr>,
      \<lparr>bidder = 12, encryptedBid = 7683, timestamp = 1300\<rparr>]"
  by (simp add: after_bids_def scenario_def eval_defs)

subsection \<open>A reverting call has written nothing\<close>

lemma createAuction_revert:
  "fst (createAuction fhe now i d s) \<noteq> None \<Longrightarrow> snd (createAuction fhe now i d s) = s"
  by (simp add: createAuction_def Let_def split: if_splits)

lemma placeBid_revert:
  "fst (placeBid fhe now sender i c p s) \<noteq> None \<Longrightarrow> snd (placeBid fhe now sender i c p s) = s"
proof (cases "onlyActiveAuction now i s")
  case (Some e)
  then show ?thesis by (simp add: placeBid_def)
next
  case None
  assume f: "fst (placeBid fhe now sender i c p s) \<noteq> None"
  show ?thesis
  proof (cases "FHE_fromExternal fhe c p")
    case no_handle: None
    with None show ?thesis by (simp add: placeBid_def)
  next
    case (Some v)
    show ?thesis
    proof (cases "FHE_isInitialized v")
      case True
      with None Some f show ?thesis by (simp add: placeBid_def Let_def)
    next
      case False
      with None Some show ?thesis by (simp add: placeBid_def)
    qed
  qed
qed

lemma concludeAuction_revert:
  "fst (concludeAuction fhe now i clear p s) \<noteq> None
     \<Longrightarrow> snd (concludeAuction fhe now i clear p s) = s"
  by (simp add: concludeAuction_def Let_def split: option.splits if_splits)

lemma call_revert: "fst (call fhe t s) \<noteq> None \<Longrightarrow> snd (call fhe t s) = s"
  by (cases t) (simp_all add: createAuction_revert placeBid_revert concludeAuction_revert)

lemma commit_eq:
  "commit fhe s t = (if fst (call fhe t s) = None then snd (call fhe t s) else s)"
  by (cases "call fhe t s") (auto simp: commit_def)

lemma commit_snd: "commit fhe s t = snd (call fhe t s)"
  by (simp add: commit_eq call_revert)

lemma run_snoc: "run fhe s (ts @ [t]) = commit fhe (run fhe s ts) t"
  by (simp add: run_def)

lemma run_Cons: "run fhe s (t # ts) = run fhe (commit fhe s t) ts"
  by (simp add: run_def)

lemma run_Nil: "run fhe s [] = s"
  by (simp add: run_def)

subsection \<open>What each function writes\<close>

lemma createAuction_bids: "bids (snd (createAuction fhe now i d s)) = bids s"
  by (simp add: createAuction_def Let_def)

lemma concludeAuction_bids: "bids (snd (concludeAuction fhe now i clear p s)) = bids s"
  by (simp add: concludeAuction_def Let_def split: option.splits)

lemma placeBid_ok:
  assumes "onlyActiveAuction now i s = None" "FHE_fromExternal fhe c p = Some v"
    "FHE_isInitialized v"
  shows "placeBid fhe now sender i c p s =
    (None, s\<lparr>bids := (bids s)(i := bids s i @
                 [\<lparr>bidder = sender, encryptedBid = v, timestamp = now\<rparr>]),
             auctions := (if FHE_gt fhe v (highestBid (auctions s i))
                then (auctions s)(i := (auctions s i)\<lparr>highestBid := v, highestBidder := sender\<rparr>)
                else auctions s),
             acl_allowThis := insert v (acl_allowThis s),
             acl_publiclyDecryptable := insert v (acl_publiclyDecryptable s),
             events := events s @ [BidPlaced i sender]\<rparr>)"
  using assms by (simp add: placeBid_def outbids_def Let_def)

lemma placeBid_success:
  assumes "fst (placeBid fhe now sender i c p s) = None"
  shows "onlyActiveAuction now i s = None \<and>
         (\<exists>v. FHE_fromExternal fhe c p = Some v \<and> FHE_isInitialized v)"
proof (cases "onlyActiveAuction now i s")
  case (Some e)
  with assms show ?thesis by (simp add: placeBid_def)
next
  case None
  show ?thesis
  proof (cases "FHE_fromExternal fhe c p")
    case no_handle: None
    with None assms show ?thesis by (simp add: placeBid_def)
  next
    case (Some v)
    with None assms show ?thesis by (cases "FHE_isInitialized v") (simp_all add: placeBid_def)
  qed
qed

lemma onlyActiveAuction_None:
  "onlyActiveAuction now i s = None \<longleftrightarrow>
     auctionExists s i \<and> isActive (auctions s i) \<and> startTime (auctions s i) \<le> now
     \<and> now \<le> endTime (auctions s i)"
  by (simp add: onlyActiveAuction_def)

lemma placeBid_bids:
  "bids (snd (placeBid fhe now sender i c p s)) j = bids s j \<or>
   (\<exists>b. bids (snd (placeBid fhe now sender i c p s)) j = bids s j @ [b])"
proof (cases "fst (placeBid fhe now sender i c p s) = None")
  case True
  from placeBid_success [OF True] obtain v where
    v: "onlyActiveAuction now i s = None" "FHE_fromExternal fhe c p = Some v" "FHE_isInitialized v"
    by blast
  show ?thesis by (simp add: placeBid_ok [OF v])
next
  case False
  then show ?thesis by (simp add: placeBid_revert)
qed

lemma commit_bids:
  "bids (commit fhe s t) j = bids s j \<or> (\<exists>b. bids (commit fhe s t) j = bids s j @ [b])"
proof (cases t)
  case (CreateAuction now i d)
  then show ?thesis by (simp add: commit_snd createAuction_bids)
next
  case (PlaceBid now sender i c p)
  then show ?thesis using placeBid_bids [of fhe now sender i c p s j] by (simp add: commit_snd)
next
  case (ConcludeAuction now i clear p)
  then show ?thesis by (simp add: commit_snd concludeAuction_bids)
qed

lemma commit_prefix: "prefix (bids s j) (bids (commit fhe s t) j)"
  using commit_bids [of fhe s t j] by auto

lemma run_prefix: "prefix (bids s j) (bids (run fhe s ts) j)"
proof (induction ts rule: rev_induct)
  case Nil
  show ?case by (simp add: run_Nil)
next
  case (snoc t ts)
  have "prefix (bids (run fhe s ts) j) (bids (run fhe s (ts @ [t])) j)"
    by (simp add: run_snoc commit_prefix)
  with snoc show ?case by (rule prefix_order.trans)
qed

lemma commit_exists: "auctionExists s j \<Longrightarrow> auctionExists (commit fhe s t) j"
proof (cases t)
  case (CreateAuction now i d)
  assume "auctionExists s j"
  with CreateAuction show ?thesis by (simp add: commit_snd createAuction_def Let_def)
next
  case (PlaceBid now sender i c p)
  assume e: "auctionExists s j"
  show ?thesis
  proof (cases "fst (placeBid fhe now sender i c p s) = None")
    case True
    from placeBid_success [OF True] obtain v where
      v: "onlyActiveAuction now i s = None" "FHE_fromExternal fhe c p = Some v"
         "FHE_isInitialized v"
      by blast
    show ?thesis using e by (simp add: PlaceBid commit_snd placeBid_ok [OF v])
  next
    case False
    then show ?thesis using e by (simp add: PlaceBid commit_snd placeBid_revert)
  qed
next
  case (ConcludeAuction now i clear p)
  assume "auctionExists s j"
  with ConcludeAuction show ?thesis
    by (simp add: commit_snd concludeAuction_def Let_def split: option.splits)
qed

lemma run_exists: "auctionExists s j \<Longrightarrow> auctionExists (run fhe s ts) j"
  by (induction ts rule: rev_induct) (simp_all add: run_Nil run_snoc commit_exists)

subsection \<open>The registry follows the ledger\<close>

lemma checked_add_le:
  fixes x y :: uint256
  assumes "\<not> 2 ^ 256 \<le> unat x + unat y"
  shows "x \<le> x + y" and "unat (x + y) = unat x + unat y"
proof -
  from assms have "unat x + unat y < 2 ^ LENGTH(256)" by simp
  then show u: "unat (x + y) = unat x + unat y" by (rule unat_add_lem [THEN iffD1])
  then show "x \<le> x + y" by (simp add: word_le_nat_alt)
qed

lemma running_max_snoc:
  "running_max fhe acc (bs @ [b]) =
     (if FHE_gt fhe (encryptedBid b) (snd (running_max fhe acc bs))
      then (bidder b, encryptedBid b) else running_max fhe acc bs)"
  by (induction bs arbitrary: acc) simp_all

lemma deployed_follows: "registry_follows_ledger fhe deployed"
  by (simp add: registry_follows_ledger_def deployed_def)

lemma createAuction_follows:
  assumes inv: "registry_follows_ledger fhe s"
  shows "registry_follows_ledger fhe (snd (createAuction fhe now i d s))"
proof (cases "fst (createAuction fhe now i d s) = None")
  case False
  with inv show ?thesis by (simp add: createAuction_revert)
next
  case True
  then have fresh: "\<not> auctionExists s i" and fits: "\<not> 2 ^ 256 \<le> unat now + unat d"
    by (auto simp: createAuction_def Let_def split: if_splits)
  from inv fresh have empty: "bids s i = []"
    by (simp add: registry_follows_ledger_def split: if_splits)
  have le: "now \<le> now + d" using fits by (rule checked_add_le)
  show ?thesis
    unfolding registry_follows_ledger_def
  proof
    fix j
    show "if auctionExists (snd (createAuction fhe now i d s)) j
          then (highestBidder (auctions (snd (createAuction fhe now i d s)) j),
                highestBid (auctions (snd (createAuction fhe now i d s)) j)) =
                 running_max fhe (0, FHE_zero fhe 16) (bids (snd (createAuction fhe now i d s)) j)
               \<and> startTime (auctions (snd (createAuction fhe now i d s)) j)
                   \<le> endTime (auctions (snd (createAuction fhe now i d s)) j)
          else bids (snd (createAuction fhe now i d s)) j = []"
    proof (cases "j = i")
      case True
      with fresh fits empty le show ?thesis by (simp add: createAuction_def Let_def)
    next
      case False
      with fresh fits inv [unfolded registry_follows_ledger_def, rule_format, of j]
      show ?thesis by (simp add: createAuction_def Let_def)
    qed
  qed
qed

lemma placeBid_follows:
  assumes inv: "registry_follows_ledger fhe s"
  shows "registry_follows_ledger fhe (snd (placeBid fhe now sender i c p s))"
proof (cases "fst (placeBid fhe now sender i c p s) = None")
  case False
  with inv show ?thesis by (simp add: placeBid_revert)
next
  case True
  from placeBid_success [OF True] obtain v where
    v: "onlyActiveAuction now i s = None" "FHE_fromExternal fhe c p = Some v"
       "FHE_isInitialized v"
    by blast
  from v(1) have ex: "auctionExists s i" by (simp add: onlyActiveAuction_None)
  from inv ex have cur:
    "(highestBidder (auctions s i), highestBid (auctions s i)) =
       running_max fhe (0, FHE_zero fhe 16) (bids s i)"
    and le: "startTime (auctions s i) \<le> endTime (auctions s i)"
    by (simp_all add: registry_follows_ledger_def split: if_splits)
  from cur have h: "snd (running_max fhe (0, FHE_zero fhe 16) (bids s i)) = highestBid (auctions s i)"
    by (metis snd_conv)
  show ?thesis
    unfolding registry_follows_ledger_def
  proof
    fix j
    show "if auctionExists (snd (placeBid fhe now sender i c p s)) j
          then (highestBidder (auctions (snd (placeBid fhe now sender i c p s)) j),
                highestBid (auctions (snd (placeBid fhe now sender i c p s)) j)) =
                 running_max fhe (0, FHE_zero fhe 16)
                   (bids (snd (placeBid fhe now sender i c p s)) j)
               \<and> startTime (auctions (snd (placeBid fhe now sender i c p s)) j)
                   \<le> endTime (auctions (snd (placeBid fhe now sender i c p s)) j)
          else bids (snd (placeBid fhe now sender i c p s)) j = []"
    proof (cases "j = i")
      case True
      with ex cur le h show ?thesis
        by (simp add: placeBid_ok [OF v] running_max_snoc)
    next
      case False
      with inv [unfolded registry_follows_ledger_def, rule_format, of j]
      show ?thesis by (simp add: placeBid_ok [OF v])
    qed
  qed
qed

lemma concludeAuction_follows:
  assumes inv: "registry_follows_ledger fhe s"
  shows "registry_follows_ledger fhe (snd (concludeAuction fhe now i clear p s))"
  unfolding registry_follows_ledger_def
proof
  fix j
  let ?s' = "snd (concludeAuction fhe now i clear p s)"
  show "if auctionExists ?s' j
        then (highestBidder (auctions ?s' j), highestBid (auctions ?s' j)) =
               running_max fhe (0, FHE_zero fhe 16) (bids ?s' j)
             \<and> startTime (auctions ?s' j) \<le> endTime (auctions ?s' j)
        else bids ?s' j = []"
    using inv [unfolded registry_follows_ledger_def, rule_format, of j]
    by (cases "j = i") (auto simp: concludeAuction_def Let_def split: option.splits)
qed

lemma commit_follows:
  "registry_follows_ledger fhe s \<Longrightarrow> registry_follows_ledger fhe (commit fhe s t)"
  by (cases t)
     (simp_all add: commit_snd createAuction_follows placeBid_follows concludeAuction_follows)

lemma run_follows:
  "registry_follows_ledger fhe s \<Longrightarrow> registry_follows_ledger fhe (run fhe s ts)"
  by (induction ts rule: rev_induct) (simp_all add: run_Nil run_snoc commit_follows)

lemma reachable_follows: "registry_follows_ledger fhe (run fhe deployed ts)"
  by (rule run_follows [OF deployed_follows])

section \<open>The bid ledger\<close>

text \<open>
  C9. The per-auction bid ledger is append-only. For every auction id the ledger after
  any transaction, and after any sequence of transactions, has the ledger before as a
  prefix, so no operation removes, reorders or modifies an entry; a \<^verbatim>\<open>placeBid\<close> that
  succeeds appends exactly one entry, the new bid, at the end of the ledger of its
  auction and leaves every other ledger as it is; and a \<^verbatim>\<open>getBidCount\<close> that
  returned \<open>n\<close> returns at least \<open>n\<close> after any further transactions.
\<close>

theorem ledger_append_only:
  "prefix (bids s i) (bids (commit fhe s t) i)
   \<and> prefix (bids s i) (bids (run fhe s ts) i)
   \<and> (fst (placeBid fhe now sender j c p s) = None \<longrightarrow>
        (\<exists>v. FHE_fromExternal fhe c p = Some v \<and>
           bids (snd (placeBid fhe now sender j c p s)) =
             (bids s)(j := bids s j @ [\<lparr>bidder = sender, encryptedBid = v, timestamp = now\<rparr>])))
   \<and> (\<forall>n. getBidCount i s = Inr n \<longrightarrow>
        (\<exists>n'. getBidCount i (run fhe s ts) = Inr n' \<and> n \<le> n'))"
proof (intro conjI allI impI)
  show "prefix (bids s i) (bids (commit fhe s t) i)" by (rule commit_prefix)
  show "prefix (bids s i) (bids (run fhe s ts) i)" by (rule run_prefix)
next
  assume ok: "fst (placeBid fhe now sender j c p s) = None"
  from placeBid_success [OF ok] obtain v where
    v: "onlyActiveAuction now j s = None" "FHE_fromExternal fhe c p = Some v"
       "FHE_isInitialized v"
    by blast
  show "\<exists>v. FHE_fromExternal fhe c p = Some v \<and>
           bids (snd (placeBid fhe now sender j c p s)) =
             (bids s)(j := bids s j @ [\<lparr>bidder = sender, encryptedBid = v, timestamp = now\<rparr>])"
    using v(2) by (simp add: placeBid_ok [OF v])
next
  fix n
  assume c: "getBidCount i s = Inr n"
  then have e: "auctionExists s i" and n: "n = length (bids s i)"
    by (auto simp: getBidCount_def split: if_splits)
  have "length (bids s i) \<le> length (bids (run fhe s ts) i)"
    using run_prefix [of s i fhe ts] by (rule prefix_length_le)
  with n run_exists [OF e, of fhe ts]
  show "\<exists>n'. getBidCount i (run fhe s ts) = Inr n' \<and> n \<le> n'"
    by (simp add: getBidCount_def)
qed

theorem ledger_append_only_witness:
  "prefix (bids after_create ''nft-1'')
     (bids (commit test_FHE after_create (PlaceBid 1100 10 ''nft-1'' 12801 [1])) ''nft-1'')
   \<and> prefix (bids after_create ''nft-1'') (bids after_bids ''nft-1'')
   \<and> bids (snd (placeBid test_FHE 1100 10 ''nft-1'' 12801 [1] after_create)) ''nft-1''
       = [\<lparr>bidder = 10, encryptedBid = 12801, timestamp = 1100\<rparr>]
   \<and> getBidCount ''nft-1'' after_create = Inr 0
   \<and> getBidCount ''nft-1'' after_bids = Inr 3"
proof -
  have r: "run test_FHE after_create (tl scenario) = after_bids"
    by (simp add: after_bids_def after_create_def scenario_def run_def)
  have ok: "fst (placeBid test_FHE 1100 10 ''nft-1'' 12801 [1] after_create) = None"
    by (simp add: after_create_def eval_defs)
  have f: "FHE_fromExternal test_FHE 12801 [1] = Some 12801"
    by (simp add: test_FHE_def mock_FHE_def)
  have b: "bids after_create ''nft-1'' = []"
    by (simp add: after_create_def eval_defs)
  have c: "getBidCount ''nft-1'' after_create = Inr 0"
    by (simp add: getBidCount_def after_create_def eval_defs)
  from ledger_append_only [of after_create "''nft-1''" test_FHE
      "PlaceBid 1100 10 ''nft-1'' 12801 [1]" "tl scenario" 1100 10 "''nft-1''" 12801 "[1]"]
  show ?thesis
    using ok f b c by (simp add: r getBidCount_def after_bids_exists after_bids_ledger)
qed

section \<open>Atomicity\<close>

text \<open>
  C6. Every operation is all-or-nothing. When \<^verbatim>\<open>createAuction\<close>, \<^verbatim>\<open>placeBid\<close> or
  \<^verbatim>\<open>concludeAuction\<close> fails with any error, the storage, the ledger, the flags and the
  event log are exactly as before the call: the function body has written nothing at
  the point where it reverts, and the committed state is the state before the call.
\<close>

theorem operations_atomic:
  "call fhe t s = (Some e, s') \<Longrightarrow> s' = s \<and> commit fhe s t = s"
proof -
  assume r: "call fhe t s = (Some e, s')"
  then have "fst (call fhe t s) \<noteq> None" by simp
  then have "snd (call fhe t s) = s" by (rule call_revert)
  with r show ?thesis by (simp add: commit_def)
qed

theorem operations_atomic_witness:
  "call test_FHE (ConcludeAuction 4700 ''nft-1'' (abi_encode_uint32 80) []) after_bids
     = (Some InvalidProof, after_bids)
   \<and> commit test_FHE after_bids (ConcludeAuction 4700 ''nft-1'' (abi_encode_uint32 80) [])
     = after_bids
   \<and> call test_FHE (PlaceBid 1400 13 ''nft-1'' 0 [1]) after_bids
     = (Some InvalidCiphertext, after_bids)
   \<and> call test_FHE (CreateAuction 1400 ''nft-1'' 60) after_bids
     = (Some AlreadyExists, after_bids)"
proof -
  have f: "fst (call test_FHE (ConcludeAuction 4700 ''nft-1'' (abi_encode_uint32 80) [])
             after_bids) = Some InvalidProof"
    by (simp add: concludeAuction_def after_bids_auction after_bids_exists
          test_FHE_def mock_FHE_def Let_def)
  have g: "fst (call test_FHE (PlaceBid 1400 13 ''nft-1'' 0 [1]) after_bids)
      = Some InvalidCiphertext"
    by (simp add: placeBid_def onlyActiveAuction_def after_bids_auction after_bids_exists
          test_FHE_def mock_FHE_def FHE_isInitialized_def)
  have h: "fst (call test_FHE (CreateAuction 1400 ''nft-1'' 60) after_bids)
      = Some AlreadyExists"
    by (simp add: createAuction_def after_bids_exists)
  obtain s1 where r1: "call test_FHE (ConcludeAuction 4700 ''nft-1'' (abi_encode_uint32 80) [])
      after_bids = (Some InvalidProof, s1)"
    using f by (metis prod.collapse)
  obtain s2 where r2: "call test_FHE (PlaceBid 1400 13 ''nft-1'' 0 [1]) after_bids
      = (Some InvalidCiphertext, s2)"
    using g by (metis prod.collapse)
  obtain s3 where r3: "call test_FHE (CreateAuction 1400 ''nft-1'' 60) after_bids
      = (Some AlreadyExists, s3)"
    using h by (metis prod.collapse)
  from operations_atomic [OF r1] operations_atomic [OF r2] operations_atomic [OF r3] r1 r2 r3
  show ?thesis by simp
qed

lemma after_create_auction:
  "auctions after_create ''nft-1'' =
     \<lparr>nftId = ''nft-1'', startTime = 1000, endTime = 4600, highestBidder = 0,
      highestBid = 16, isActive = True\<rparr>"
  by (simp add: after_create_def eval_defs)

lemma after_create_exists: "auctionExists after_create ''nft-1''"
  by (simp add: after_create_def eval_defs)

lemma after_create_ledger: "bids after_create ''nft-1'' = []"
  by (simp add: after_create_def eval_defs)

lemma after_bids_registered: "acl_publiclyDecryptable after_bids = {12801, 20482, 7683}"
  by (auto simp: after_bids_def scenario_def eval_defs)

lemma test_checkSignatures_80:
  "FHE_checkSignatures test_FHE (acl_publiclyDecryptable after_bids) [20482]
     (abi_encode_uint32 80) [1]"
  by (simp add: after_bids_registered test_FHE_def mock_FHE_def high_bits_def)

lemma after_conclusion_eq:
  "after_conclusion =
     after_bids\<lparr>auctions := (auctions after_bids)(''nft-1'' :=
                   (auctions after_bids ''nft-1'')\<lparr>isActive := False\<rparr>),
                events := events after_bids @ [AuctionConcluded ''nft-1'' 11 80]\<rparr>"
  by (simp add: after_conclusion_def commit_def concludeAuction_def after_bids_exists
        after_bids_auction FHE_toBytes32_def test_checkSignatures_80 decode_encode_80)

lemma after_conclusion_auction:
  "auctions after_conclusion ''nft-1'' =
     \<lparr>nftId = ''nft-1'', startTime = 1000, endTime = 4600, highestBidder = 11,
      highestBid = 20482, isActive = False\<rparr>"
  by (simp add: after_conclusion_eq after_bids_auction)

lemma after_conclusion_exists: "auctionExists after_conclusion ''nft-1''"
  by (simp add: after_conclusion_eq after_bids_exists)

section \<open>Creating an auction\<close>

text \<open>
  C8, as amended. \<^verbatim>\<open>createAuction(id, duration)\<close> fails with \<open>AlreadyExists\<close> if the id
  is registered. Otherwise, when \<open>now + duration\<close> fits 256 bits, it sets
  \<open>start = now\<close>, \<open>end = now + duration\<close> (the sum of the two numbers, not wrapped),
  \<open>active = true\<close>, the highest-bid handle to \<^verbatim>\<open>FHE.zero(16)\<close>, the highest bidder to
  the zero address, and emits \<open>AuctionCreated(id, start, end)\<close>; when the sum does not
  fit, the checked addition reverts and nothing is registered. Consequently every
  registered auction of every reachable state has \<open>start \<le> end\<close>.
\<close>

theorem createAuction_outcome:
  "(auctionExists s i \<longrightarrow> createAuction fhe now i d s = (Some AlreadyExists, s))
   \<and> (\<not> auctionExists s i \<and> unat now + unat d < 2 ^ 256 \<longrightarrow>
        createAuction fhe now i d s =
          (None, s\<lparr>auctions := (auctions s)(i :=
                      \<lparr>nftId = i, startTime = now, endTime = now + d, highestBidder = 0,
                       highestBid = FHE_zero fhe 16, isActive = True\<rparr>),
                   auctionExists := (auctionExists s)(i := True),
                   events := events s @ [AuctionCreated i now (now + d)]\<rparr>)
        \<and> unat (now + d) = unat now + unat d)
   \<and> (\<not> auctionExists s i \<and> 2 ^ 256 \<le> unat now + unat d \<longrightarrow>
        createAuction fhe now i d s = (Some ArithmeticOverflow, s))
   \<and> (auctionExists (run fhe deployed ts) j \<longrightarrow>
        startTime (auctions (run fhe deployed ts) j) \<le> endTime (auctions (run fhe deployed ts) j))"
proof (intro conjI impI)
  assume "auctionExists s i"
  then show "createAuction fhe now i d s = (Some AlreadyExists, s)"
    by (simp add: createAuction_def)
next
  assume a: "\<not> auctionExists s i \<and> unat now + unat d < 2 ^ 256"
  then show "createAuction fhe now i d s =
          (None, s\<lparr>auctions := (auctions s)(i :=
                      \<lparr>nftId = i, startTime = now, endTime = now + d, highestBidder = 0,
                       highestBid = FHE_zero fhe 16, isActive = True\<rparr>),
                   auctionExists := (auctionExists s)(i := True),
                   events := events s @ [AuctionCreated i now (now + d)]\<rparr>)"
    by (simp add: createAuction_def Let_def)
  from a have "\<not> 2 ^ 256 \<le> unat now + unat d" by simp
  then show "unat (now + d) = unat now + unat d" by (rule checked_add_le)
next
  assume "\<not> auctionExists s i \<and> 2 ^ 256 \<le> unat now + unat d"
  then show "createAuction fhe now i d s = (Some ArithmeticOverflow, s)"
    by (simp add: createAuction_def Let_def)
next
  assume "auctionExists (run fhe deployed ts) j"
  with reachable_follows [of fhe ts]
  show "startTime (auctions (run fhe deployed ts) j) \<le> endTime (auctions (run fhe deployed ts) j)"
    by (simp add: registry_follows_ledger_def split: if_splits)
qed

theorem createAuction_outcome_witness:
  "createAuction test_FHE 2000 ''nft-1'' 60 after_create = (Some AlreadyExists, after_create)
   \<and> createAuction test_FHE 1000 ''nft-1'' 3600 deployed =
       (None, deployed\<lparr>auctions := (auctions deployed)(''nft-1'' :=
                 \<lparr>nftId = ''nft-1'', startTime = 1000, endTime = 4600, highestBidder = 0,
                  highestBid = 16, isActive = True\<rparr>),
               auctionExists := (auctionExists deployed)(''nft-1'' := True),
               events := [AuctionCreated ''nft-1'' 1000 4600]\<rparr>)
   \<and> createAuction test_FHE 1000 ''nft-1'' (- 1) deployed = (Some ArithmeticOverflow, deployed)
   \<and> startTime (auctions after_bids ''nft-1'') \<le> endTime (auctions after_bids ''nft-1'')"
proof -
  have fresh: "\<not> auctionExists deployed ''nft-1''" by (simp add: deployed_def)
  have z: "FHE_zero test_FHE 16 = 16" by (simp add: test_FHE_def mock_FHE_def)
  have ev: "events deployed = []" by (simp add: deployed_def)
  have big: "(2::nat) ^ 256 \<le> unat (1000 :: uint256) + unat (- 1 :: uint256)"
    by (simp add: unsigned_minus_1_eq_mask mask_eq_exp_minus_1)
  have small: "unat (1000 :: uint256) + unat (3600 :: uint256) < 2 ^ 256" by simp
  from createAuction_outcome [where s = after_create and i = "''nft-1''" and fhe = test_FHE
        and now = 2000 and d = 60 and ts = scenario and j = "''nft-1''"]
    createAuction_outcome [where s = deployed and i = "''nft-1''" and fhe = test_FHE
        and now = 1000 and d = 3600 and ts = scenario and j = "''nft-1''"]
    createAuction_outcome [where s = deployed and i = "''nft-1''" and fhe = test_FHE
        and now = 1000 and d = "- 1" and ts = scenario and j = "''nft-1''"]
  show ?thesis
    using fresh big small after_create_exists after_bids_exists
    by (simp add: z ev after_bids_def [symmetric])
qed

theorem createAuction_counterexample:
  "\<not> auctionExists deployed ''nft-1''
   \<and> createAuction test_FHE 1000 ''nft-1'' (- 1) deployed = (Some ArithmeticOverflow, deployed)
   \<and> \<not> auctionExists (commit test_FHE deployed (CreateAuction 1000 ''nft-1'' (- 1))) ''nft-1''"
  by (simp add: createAuction_def commit_def deployed_def unsigned_minus_1_eq_mask mask_eq_exp_minus_1)

section \<open>Placing a bid: the guards\<close>

text \<open>
  C5, as amended. \<^verbatim>\<open>placeBid\<close> fails with \<open>NotFound\<close> if the id is unregistered;
  otherwise with \<open>Inactive\<close> if \<open>active == false\<close>; otherwise with \<open>NotYetOpen\<close> if
  \<open>now < start\<close>; otherwise with \<open>Expired\<close> if \<open>now > end\<close>: the four checks run
  in this order and the first that fails decides the error. In every failing case
  (these four, a rejected input proof, an uninitialised ciphertext) the call changes
  neither the ledger nor the registry nor anything else, and it succeeds only when the
  auction is registered and active and \<open>start \<le> now \<le> end\<close>.
\<close>

theorem placeBid_guards:
  "(\<not> auctionExists s i \<longrightarrow> placeBid fhe now sender i c p s = (Some NotFound, s))
   \<and> (auctionExists s i \<and> \<not> isActive (auctions s i) \<longrightarrow>
        placeBid fhe now sender i c p s = (Some Inactive, s))
   \<and> (auctionExists s i \<and> isActive (auctions s i) \<and> now < startTime (auctions s i) \<longrightarrow>
        placeBid fhe now sender i c p s = (Some NotYetOpen, s))
   \<and> (auctionExists s i \<and> isActive (auctions s i) \<and> startTime (auctions s i) \<le> now
        \<and> endTime (auctions s i) < now \<longrightarrow>
        placeBid fhe now sender i c p s = (Some Expired, s))
   \<and> (fst (placeBid fhe now sender i c p s) \<noteq> None \<longrightarrow>
        snd (placeBid fhe now sender i c p s) = s)
   \<and> (fst (placeBid fhe now sender i c p s) = None \<longrightarrow>
        auctionExists s i \<and> isActive (auctions s i) \<and> startTime (auctions s i) \<le> now
        \<and> now \<le> endTime (auctions s i))"
proof (intro conjI impI)
  assume "\<not> auctionExists s i"
  then show "placeBid fhe now sender i c p s = (Some NotFound, s)"
    by (simp add: placeBid_def onlyActiveAuction_def)
next
  assume "auctionExists s i \<and> \<not> isActive (auctions s i)"
  then show "placeBid fhe now sender i c p s = (Some Inactive, s)"
    by (simp add: placeBid_def onlyActiveAuction_def)
next
  assume "auctionExists s i \<and> isActive (auctions s i) \<and> now < startTime (auctions s i)"
  then show "placeBid fhe now sender i c p s = (Some NotYetOpen, s)"
    by (simp add: placeBid_def onlyActiveAuction_def not_le)
next
  assume "auctionExists s i \<and> isActive (auctions s i) \<and> startTime (auctions s i) \<le> now
        \<and> endTime (auctions s i) < now"
  then show "placeBid fhe now sender i c p s = (Some Expired, s)"
    by (simp add: placeBid_def onlyActiveAuction_def not_le)
next
  assume "fst (placeBid fhe now sender i c p s) \<noteq> None"
  then show "snd (placeBid fhe now sender i c p s) = s" by (rule placeBid_revert)
next
  assume ok: "fst (placeBid fhe now sender i c p s) = None"
  from placeBid_success [OF ok] have "onlyActiveAuction now i s = None" by simp
  then have g: "auctionExists s i \<and> isActive (auctions s i) \<and> startTime (auctions s i) \<le> now
        \<and> now \<le> endTime (auctions s i)"
    by (simp add: onlyActiveAuction_None)
  from g show "auctionExists s i" by simp
  from g show "isActive (auctions s i)" by simp
  from g show "startTime (auctions s i) \<le> now" by simp
  from g show "now \<le> endTime (auctions s i)" by simp
qed

theorem placeBid_guards_witness:
  "placeBid test_FHE 1400 13 ''nft-2'' 25604 [1] after_bids = (Some NotFound, after_bids)
   \<and> placeBid test_FHE 1400 13 ''nft-1'' 25604 [1] after_conclusion
       = (Some Inactive, after_conclusion)
   \<and> placeBid test_FHE 900 13 ''nft-1'' 25604 [1] after_bids = (Some NotYetOpen, after_bids)
   \<and> placeBid test_FHE 5000 13 ''nft-1'' 25604 [1] after_bids = (Some Expired, after_bids)
   \<and> placeBid test_FHE 1400 13 ''nft-1'' 25604 [] after_bids
       = (Some InputProofRejected, after_bids)
   \<and> fst (placeBid test_FHE 1400 13 ''nft-1'' 25604 [1] after_bids) = None
   \<and> startTime (auctions after_bids ''nft-1'') \<le> 1400
   \<and> 1400 \<le> endTime (auctions after_bids ''nft-1'')"
proof -
  have none: "\<not> auctionExists after_bids ''nft-2''"
    by (simp add: after_bids_def scenario_def eval_defs)
  have rejected: "placeBid test_FHE 1400 13 ''nft-1'' 25604 [] after_bids
       = (Some InputProofRejected, after_bids)"
    by (simp add: placeBid_def onlyActiveAuction_def after_bids_exists after_bids_auction
          test_FHE_def mock_FHE_def)
  have ok: "fst (placeBid test_FHE 1400 13 ''nft-1'' 25604 [1] after_bids) = None"
    by (simp add: placeBid_def onlyActiveAuction_def after_bids_exists after_bids_auction
          test_FHE_def mock_FHE_def FHE_isInitialized_def Let_def)
  from placeBid_guards [where s = after_bids and i = "''nft-2''" and fhe = test_FHE
        and now = 1400 and sender = 13 and c = 25604 and p = "[1]"]
    placeBid_guards [where s = after_conclusion and i = "''nft-1''" and fhe = test_FHE
        and now = 1400 and sender = 13 and c = 25604 and p = "[1]"]
    placeBid_guards [where s = after_bids and i = "''nft-1''" and fhe = test_FHE
        and now = 900 and sender = 13 and c = 25604 and p = "[1]"]
    placeBid_guards [where s = after_bids and i = "''nft-1''" and fhe = test_FHE
        and now = 5000 and sender = 13 and c = 25604 and p = "[1]"]
    placeBid_guards [where s = after_bids and i = "''nft-1''" and fhe = test_FHE
        and now = 1400 and sender = 13 and c = 25604 and p = "[]"]
    placeBid_guards [where s = after_bids and i = "''nft-1''" and fhe = test_FHE
        and now = 1400 and sender = 13 and c = 25604 and p = "[1]"]
  show ?thesis
    using none rejected ok
    by (simp add: after_bids_exists after_bids_auction after_conclusion_exists
          after_conclusion_auction)
qed

text \<open>
  After the conclusion of \<open>nft-1\<close> a bid at 5000 is past the end 4600, and the call fails
  with \<open>Inactive\<close>, not with \<open>Expired\<close>.
\<close>

theorem placeBid_guards_counterexample:
  "auctionExists after_conclusion ''nft-1''
   \<and> endTime (auctions after_conclusion ''nft-1'') < 5000
   \<and> placeBid test_FHE 5000 13 ''nft-1'' 25604 [1] after_conclusion
       = (Some Inactive, after_conclusion)
   \<and> Inactive \<noteq> Expired"
  by (simp add: placeBid_def onlyActiveAuction_def after_conclusion_exists
        after_conclusion_auction)

section \<open>Concluding an auction\<close>

lemma decode_encode_90: "abi_decode_uint32 (abi_encode_uint32 90) = Some 90"
  by (simp add: abi_decode_uint32_def abi_encode_uint32_def be_nat_zeros)
     (simp add: be_nat_def)

lemma concludeAuction_ok:
  assumes "auctionExists s i" "endTime (auctions s i) < now" "isActive (auctions s i)"
    "FHE_checkSignatures fhe (acl_publiclyDecryptable s) [highestBid (auctions s i)] clear p"
    "abi_decode_uint32 clear = Some w"
  shows "concludeAuction fhe now i clear p s =
    (None, s\<lparr>auctions := (auctions s)(i := (auctions s i)\<lparr>isActive := False\<rparr>),
             events := events s @ [AuctionConcluded i (highestBidder (auctions s i)) w]\<rparr>)"
  using assms by (simp add: concludeAuction_def FHE_toBytes32_def Let_def)

lemma concludeAuction_success:
  assumes "fst (concludeAuction fhe now i clear p s) = None"
  shows "auctionExists s i \<and> endTime (auctions s i) < now \<and> isActive (auctions s i)
    \<and> FHE_checkSignatures fhe (acl_publiclyDecryptable s) [highestBid (auctions s i)] clear p
    \<and> (\<exists>w. abi_decode_uint32 clear = Some w)"
  using assms
  by (auto simp: concludeAuction_def FHE_toBytes32_def Let_def split: if_splits option.splits)

text \<open>
  C3, as amended. When \<^verbatim>\<open>concludeAuction\<close> succeeds for an auction id (which it does
  exactly when the id is registered, \<open>now > end\<close>, the auction is still active, the
  decryption proof verifies against the stored highest-bid handle and the cleartext
  bytes decode to a 32-bit amount), it decodes the winning amount from the cleartext
  bytes, sets \<open>active = false\<close> in the auction's state and emits
  \<open>AuctionConcluded(id, winner, winningBid)\<close> with the stored highest bidder as winner.
  The flag \<open>active\<close> is the only storage it writes: the auction has no separate
  concluded flag, the winner stays where \<^verbatim>\<open>placeBid\<close> recorded it, and the winning
  amount is in the event only.
\<close>

theorem concludeAuction_effect:
  "(fst (concludeAuction fhe now i clear p s) = None \<longleftrightarrow>
      auctionExists s i \<and> endTime (auctions s i) < now \<and> isActive (auctions s i)
      \<and> FHE_checkSignatures fhe (acl_publiclyDecryptable s) [highestBid (auctions s i)] clear p
      \<and> abi_decode_uint32 clear \<noteq> None)
   \<and> (fst (concludeAuction fhe now i clear p s) = None \<longrightarrow>
        snd (concludeAuction fhe now i clear p s) =
          s\<lparr>auctions := (auctions s)(i := (auctions s i)\<lparr>isActive := False\<rparr>),
            events := events s @
              [AuctionConcluded i (highestBidder (auctions s i)) (the (abi_decode_uint32 clear))]\<rparr>)"
proof -
  let ?ok = "fst (concludeAuction fhe now i clear p s) = None"
  let ?pre = "auctionExists s i \<and> endTime (auctions s i) < now \<and> isActive (auctions s i)
      \<and> FHE_checkSignatures fhe (acl_publiclyDecryptable s) [highestBid (auctions s i)] clear p
      \<and> abi_decode_uint32 clear \<noteq> None"
  have cond: "?ok \<longleftrightarrow> ?pre"
  proof
    assume ?ok
    from concludeAuction_success [OF this] show ?pre by auto
  next
    assume ?pre
    then obtain w where "auctionExists s i" "endTime (auctions s i) < now"
      "isActive (auctions s i)" "FHE_checkSignatures fhe (acl_publiclyDecryptable s) [highestBid (auctions s i)] clear p"
      "abi_decode_uint32 clear = Some w"
      by auto
    then show ?ok by (simp add: concludeAuction_ok)
  qed
  have what: "?ok \<longrightarrow>
        snd (concludeAuction fhe now i clear p s) =
          s\<lparr>auctions := (auctions s)(i := (auctions s i)\<lparr>isActive := False\<rparr>),
            events := events s @
              [AuctionConcluded i (highestBidder (auctions s i)) (the (abi_decode_uint32 clear))]\<rparr>"
  proof
    assume ?ok
    from concludeAuction_success [OF this] obtain w where c: "auctionExists s i"
      "endTime (auctions s i) < now" "isActive (auctions s i)"
      "FHE_checkSignatures fhe (acl_publiclyDecryptable s) [highestBid (auctions s i)] clear p"
      "abi_decode_uint32 clear = Some w"
      by auto
    show "snd (concludeAuction fhe now i clear p s) =
          s\<lparr>auctions := (auctions s)(i := (auctions s i)\<lparr>isActive := False\<rparr>),
            events := events s @
              [AuctionConcluded i (highestBidder (auctions s i)) (the (abi_decode_uint32 clear))]\<rparr>"
      by (simp add: concludeAuction_ok [OF c] c(5))
  qed
  from cond what show ?thesis by (rule conjI)
qed

theorem concludeAuction_effect_witness:
  "fst (concludeAuction test_FHE 4700 ''nft-1'' (abi_encode_uint32 80) [1] after_bids) = None
   \<and> snd (concludeAuction test_FHE 4700 ''nft-1'' (abi_encode_uint32 80) [1] after_bids) =
       after_bids\<lparr>auctions := (auctions after_bids)(''nft-1'' :=
                     \<lparr>nftId = ''nft-1'', startTime = 1000, endTime = 4600, highestBidder = 11,
                      highestBid = 20482, isActive = False\<rparr>),
                  events := events after_bids @ [AuctionConcluded ''nft-1'' 11 80]\<rparr>"
  using concludeAuction_effect [of test_FHE 4700 "''nft-1''" "abi_encode_uint32 80" "[1]" after_bids]
  by (simp add: after_bids_exists after_bids_auction test_checkSignatures_80 decode_encode_80)

text \<open>
  The scenario's auction concluded with the proved amount 80, and the same storage
  concluded under a library in which the winning handle decrypts to 90: the two calls
  succeed, emit different amounts, and leave the same auction record, which has the six
  fields of the source and holds neither a concluded flag nor an amount.
\<close>

theorem concludeAuction_effect_counterexample:
  "call test_FHE (ConcludeAuction 4700 ''nft-1'' (abi_encode_uint32 80) [1]) after_bids =
     (None, after_bids\<lparr>auctions := (auctions after_bids)(''nft-1'' :=
                     \<lparr>nftId = ''nft-1'', startTime = 1000, endTime = 4600, highestBidder = 11,
                      highestBid = 20482, isActive = False\<rparr>),
                  events := events after_bids @ [AuctionConcluded ''nft-1'' 11 80]\<rparr>)
   \<and> call (mock_FHE (high_bits(20482 := 90)))
        (ConcludeAuction 4700 ''nft-1'' (abi_encode_uint32 90) [1]) after_bids =
     (None, after_bids\<lparr>auctions := (auctions after_bids)(''nft-1'' :=
                     \<lparr>nftId = ''nft-1'', startTime = 1000, endTime = 4600, highestBidder = 11,
                      highestBid = 20482, isActive = False\<rparr>),
                  events := events after_bids @ [AuctionConcluded ''nft-1'' 11 90]\<rparr>)
   \<and> run (mock_FHE (high_bits(20482 := 90))) deployed scenario = after_bids"
proof (intro conjI)
  show "call test_FHE (ConcludeAuction 4700 ''nft-1'' (abi_encode_uint32 80) [1]) after_bids =
     (None, after_bids\<lparr>auctions := (auctions after_bids)(''nft-1'' :=
                     \<lparr>nftId = ''nft-1'', startTime = 1000, endTime = 4600, highestBidder = 11,
                      highestBid = 20482, isActive = False\<rparr>),
                  events := events after_bids @ [AuctionConcluded ''nft-1'' 11 80]\<rparr>)"
    by (simp add: concludeAuction_def FHE_toBytes32_def after_bids_exists after_bids_auction
          test_checkSignatures_80 decode_encode_80)
  have sig: "FHE_checkSignatures (mock_FHE (high_bits(20482 := 90)))
      (acl_publiclyDecryptable after_bids) [20482] (abi_encode_uint32 90) [1]"
    by (simp add: after_bids_registered mock_FHE_def)
  show "call (mock_FHE (high_bits(20482 := 90)))
        (ConcludeAuction 4700 ''nft-1'' (abi_encode_uint32 90) [1]) after_bids =
     (None, after_bids\<lparr>auctions := (auctions after_bids)(''nft-1'' :=
                     \<lparr>nftId = ''nft-1'', startTime = 1000, endTime = 4600, highestBidder = 11,
                      highestBid = 20482, isActive = False\<rparr>),
                  events := events after_bids @ [AuctionConcluded ''nft-1'' 11 90]\<rparr>)"
    by (simp add: concludeAuction_def FHE_toBytes32_def after_bids_exists after_bids_auction
          sig decode_encode_90)
  show "run (mock_FHE (high_bits(20482 := 90))) deployed scenario = after_bids"
    by (simp add: after_bids_def scenario_def eval_defs)
qed

subsection \<open>A concluded auction stays concluded\<close>

lemma commit_concluded:
  assumes "auctionExists s i" "\<not> isActive (auctions s i)"
  shows "auctions (commit fhe s t) i = auctions s i"
proof (cases t)
  case (CreateAuction now j d)
  with assms show ?thesis
    by (cases "j = i") (simp_all add: commit_snd createAuction_def Let_def)
next
  case (PlaceBid now sender j c p)
  show ?thesis
  proof (cases "fst (placeBid fhe now sender j c p s) = None")
    case True
    from placeBid_success [OF True] obtain v where
      v: "onlyActiveAuction now j s = None" "FHE_fromExternal fhe c p = Some v"
         "FHE_isInitialized v"
      by blast
    from v(1) assms have "j \<noteq> i" by (auto simp: onlyActiveAuction_None)
    then show ?thesis by (simp add: PlaceBid commit_snd placeBid_ok [OF v])
  next
    case False
    then show ?thesis by (simp add: PlaceBid commit_snd placeBid_revert)
  qed
next
  case (ConcludeAuction now j clear p)
  with assms show ?thesis
    by (cases "j = i") (simp_all add: commit_snd concludeAuction_def Let_def split: option.splits)
qed

lemma run_concluded:
  assumes "auctionExists s i" "\<not> isActive (auctions s i)"
  shows "auctions (run fhe s ts) i = auctions s i \<and> auctionExists (run fhe s ts) i"
proof (induction ts rule: rev_induct)
  case Nil
  from assms show ?case by (simp add: run_Nil)
next
  case (snoc t ts)
  then have "auctionExists (run fhe s ts) i" "\<not> isActive (auctions (run fhe s ts) i)"
    using assms by simp_all
  from commit_concluded [OF this] commit_exists [OF this(1)] snoc
  show ?case by (simp add: run_snoc)
qed

section \<open>Concluding twice\<close>

text \<open>
  C4. Once \<^verbatim>\<open>concludeAuction\<close> has succeeded for an auction id, then after any further
  transactions every later call of \<^verbatim>\<open>concludeAuction\<close> on that id, whatever its
  cleartext and proof, fails and leaves the whole state as it was, so the auction is
  concluded at most once; and as block timestamps do not decrease (the second call is
  not earlier than the first), the error is \<open>AlreadyConcluded\<close>.
\<close>

theorem concludeAuction_twice:
  assumes "fst (concludeAuction fhe now i clear p s) = None"
    and "s' = run fhe (snd (concludeAuction fhe now i clear p s)) ts"
  shows "fst (concludeAuction fhe now' i clear' p' s') \<noteq> None
    \<and> snd (concludeAuction fhe now' i clear' p' s') = s'
    \<and> commit fhe s' (ConcludeAuction now' i clear' p') = s'
    \<and> (now \<le> now' \<longrightarrow> fst (concludeAuction fhe now' i clear' p' s') = Some AlreadyConcluded)"
proof -
  let ?s1 = "snd (concludeAuction fhe now i clear p s)"
  from concludeAuction_success [OF assms(1)] obtain w where c: "auctionExists s i"
    "endTime (auctions s i) < now" "isActive (auctions s i)"
    "FHE_checkSignatures fhe (acl_publiclyDecryptable s) [highestBid (auctions s i)] clear p"
    "abi_decode_uint32 clear = Some w"
    by auto
  have s1: "auctionExists ?s1 i" "\<not> isActive (auctions ?s1 i)"
    "endTime (auctions ?s1 i) = endTime (auctions s i)"
    by (simp_all add: concludeAuction_ok [OF c] c(1))
  from run_concluded [OF s1(1,2), of fhe ts] assms(2)
  have s': "auctionExists s' i" "\<not> isActive (auctions s' i)"
    "endTime (auctions s' i) = endTime (auctions s i)"
    by (simp_all add: s1)
  have fails: "fst (concludeAuction fhe now' i clear' p' s') \<noteq> None"
    using s' by (simp add: concludeAuction_def)
  then have same: "snd (concludeAuction fhe now' i clear' p' s') = s'"
    by (rule concludeAuction_revert)
  have later: "now \<le> now' \<longrightarrow>
      fst (concludeAuction fhe now' i clear' p' s') = Some AlreadyConcluded"
  proof
    assume "now \<le> now'"
    with c(2) have "endTime (auctions s i) < now'" by simp
    with s' show "fst (concludeAuction fhe now' i clear' p' s') = Some AlreadyConcluded"
      by (simp add: concludeAuction_def)
  qed
  from fails same later show ?thesis by (simp add: commit_snd)
qed

theorem concludeAuction_twice_witness:
  "fst (concludeAuction test_FHE 4700 ''nft-1'' (abi_encode_uint32 80) [1] after_bids) = None
   \<and> concludeAuction test_FHE 4800 ''nft-1'' (abi_encode_uint32 80) [1] after_conclusion
       = (Some AlreadyConcluded, after_conclusion)
   \<and> commit test_FHE after_conclusion (ConcludeAuction 4800 ''nft-1'' (abi_encode_uint32 80) [1])
       = after_conclusion"
proof -
  have ok: "fst (concludeAuction test_FHE 4700 ''nft-1'' (abi_encode_uint32 80) [1] after_bids)
      = None"
    by (simp add: concludeAuction_def FHE_toBytes32_def after_bids_exists after_bids_auction
          test_checkSignatures_80 decode_encode_80)
  have s': "after_conclusion =
      run test_FHE (snd (concludeAuction test_FHE 4700 ''nft-1'' (abi_encode_uint32 80) [1]
        after_bids)) []"
    by (simp add: run_Nil after_conclusion_def commit_snd)
  have le: "(4700 :: uint256) \<le> 4800" by simp
  from concludeAuction_twice [OF ok s', of 4800 "abi_encode_uint32 80" "[1]"] le ok
  show ?thesis by (metis prod.collapse)
qed

section \<open>Auctions without bids\<close>

text \<open>
  The contract registers as publicly decryptable the handles of the accepted bids and
  no other: the encrypted zero an auction starts with is registered in no reachable
  state, unless the library returns that very handle for an external ciphertext.
\<close>

lemma commit_registered:
  assumes "\<forall>c p. FHE_fromExternal fhe c p \<noteq> Some z" "z \<notin> acl_publiclyDecryptable s"
  shows "z \<notin> acl_publiclyDecryptable (commit fhe s t)"
proof (cases t)
  case (CreateAuction now i d)
  with assms(2) show ?thesis by (simp add: commit_snd createAuction_def Let_def)
next
  case (PlaceBid now sender i c p)
  show ?thesis
  proof (cases "fst (placeBid fhe now sender i c p s) = None")
    case True
    from placeBid_success [OF True] obtain v where
      v: "onlyActiveAuction now i s = None" "FHE_fromExternal fhe c p = Some v"
         "FHE_isInitialized v"
      by blast
    from assms(1) v(2) have "v \<noteq> z" by auto
    with assms(2) show ?thesis by (simp add: PlaceBid commit_snd placeBid_ok [OF v])
  next
    case False
    with assms(2) show ?thesis by (simp add: PlaceBid commit_snd placeBid_revert)
  qed
next
  case (ConcludeAuction now i clear p)
  with assms(2) show ?thesis
    by (simp add: commit_snd concludeAuction_def Let_def split: option.splits)
qed

lemma zero_handle_unregistered:
  assumes "\<forall>c p. FHE_fromExternal fhe c p \<noteq> Some (FHE_zero fhe 16)"
  shows "FHE_zero fhe 16 \<notin> acl_publiclyDecryptable (run fhe deployed ts)"
proof (induction ts rule: rev_induct)
  case Nil
  show ?case by (simp add: run_Nil deployed_def)
next
  case (snoc t ts)
  from commit_registered [OF assms snoc] show ?case by (simp add: run_snoc)
qed

text \<open>
  A library that keeps to the registered handles therefore accepts no decryption proof
  for an auction without bids, whose highest-bid handle is the encrypted zero: in no
  reachable state does \<^verbatim>\<open>concludeAuction\<close> succeed for it.
\<close>

lemma concludeAuction_no_bids_fails:
  assumes fresh: "\<forall>c p. FHE_fromExternal fhe c p \<noteq> Some (FHE_zero fhe 16)"
    and registered_only: "\<forall>reg hs clear p. FHE_checkSignatures fhe reg hs clear p \<longrightarrow> set hs \<subseteq> reg"
    and s: "s = run fhe deployed ts" and "auctionExists s i" and "bids s i = []"
  shows "fst (concludeAuction fhe now i clear p s) \<noteq> None"
proof
  assume ok: "fst (concludeAuction fhe now i clear p s) = None"
  from reachable_follows [of fhe ts] assms(3,4,5)
  have "(highestBidder (auctions s i), highestBid (auctions s i)) = (0, FHE_zero fhe 16)"
    by (simp add: registry_follows_ledger_def split: if_splits)
  then have h: "highestBid (auctions s i) = FHE_zero fhe 16" by simp
  from concludeAuction_success [OF ok]
  have "FHE_checkSignatures fhe (acl_publiclyDecryptable s) [FHE_zero fhe 16] clear p"
    by (simp add: h)
  with registered_only have "set [FHE_zero fhe 16] \<subseteq> acl_publiclyDecryptable s" by blast
  then have "FHE_zero fhe 16 \<in> acl_publiclyDecryptable s" by simp
  with zero_handle_unregistered [OF fresh, of ts] s show False by simp
qed

lemma test_no_bids_rejected:
  "acl_publiclyDecryptable after_create = {}
   \<and> concludeAuction test_FHE 4700 ''nft-1'' (abi_encode_uint32 0) [1] after_create
       = (Some InvalidProof, after_create)"
proof -
  have r: "acl_publiclyDecryptable after_create = {}"
    by (simp add: after_create_def eval_defs)
  then show ?thesis
    by (simp add: concludeAuction_def after_create_exists after_create_auction
          FHE_toBytes32_def test_FHE_def mock_FHE_def)
qed

section \<open>The highest bidder\<close>

lemma find_snoc:
  "find P (xs @ [x]) =
     (case find P xs of None \<Rightarrow> (if P x then Some x else None) | Some y \<Rightarrow> Some y)"
  by (induction xs) simp_all

lemma Max_with_zero_snoc:
  fixes f :: "'a \<Rightarrow> uint32"
  shows "Max (insert 0 (f ` set (xs @ [x]))) = max (f x) (Max (insert 0 (f ` set xs)))"
proof -
  have "insert 0 (f ` set (xs @ [x])) = insert (f x) (insert 0 (f ` set xs))" by auto
  then show ?thesis by simp
qed

lemma Max_with_zero_ge:
  fixes f :: "'a \<Rightarrow> uint32"
  shows "x \<in> set xs \<Longrightarrow> f x \<le> Max (insert 0 (f ` set xs))"
  by simp

lemma Max_with_zero_eq:
  fixes f :: "'a \<Rightarrow> uint32"
  assumes "xs \<noteq> []"
  shows "Max (insert 0 (f ` set xs)) = Max (f ` set xs)"
proof -
  from assms have ne: "f ` set xs \<noteq> {}" by simp
  have "Max (insert 0 (f ` set xs)) = max 0 (Max (f ` set xs))"
    using ne by simp
  then show ?thesis by (simp add: max_def)
qed

lemma Max_with_zero_is_zero:
  fixes f :: "'a \<Rightarrow> uint32"
  shows "Max (insert 0 (f ` set xs)) = 0 \<longleftrightarrow> (\<forall>x\<in>set xs. f x = 0)"
proof
  assume m: "Max (insert 0 (f ` set xs)) = 0"
  show "\<forall>x\<in>set xs. f x = 0"
  proof
    fix x assume "x \<in> set xs"
    then have "f x \<le> Max (insert 0 (f ` set xs))" by (rule Max_with_zero_ge)
    with m show "f x = 0" by simp
  qed
next
  assume z: "\<forall>x\<in>set xs. f x = 0"
  then have e: "insert 0 (f ` set xs) = {0}" by auto
  show "Max (insert 0 (f ` set xs)) = 0" unfolding e by simp
qed

text \<open>
  The fold of the ledger in the specification's words: the handle it ends with decrypts
  to the greatest plaintext of the ledger (or 0), and the bidder it ends with is the
  first to have bid it, unless every plaintext is 0.
\<close>

lemma running_max_first_maximum:
  assumes z: "FHE_cleartext fhe (FHE_zero fhe 16) = 0"
  shows "FHE_cleartext fhe (snd (running_max fhe (0, FHE_zero fhe 16) bs))
           = Max (insert 0 (bid_value fhe ` set bs))
     \<and> (if Max (insert 0 (bid_value fhe ` set bs)) = 0
         then running_max fhe (0, FHE_zero fhe 16) bs = (0, FHE_zero fhe 16)
         else Some (fst (running_max fhe (0, FHE_zero fhe 16) bs)) =
                map_option bidder
                  (find (\<lambda>b. bid_value fhe b = Max (insert 0 (bid_value fhe ` set bs))) bs))"
proof (induction bs rule: rev_induct)
  case Nil
  show ?case by (simp add: z)
next
  case (snoc b bs)
  define r where "r = running_max fhe (0, FHE_zero fhe 16) bs"
  define M where "M = Max (insert 0 (bid_value fhe ` set bs))"
  define M' where "M' = Max (insert 0 (bid_value fhe ` set (bs @ [b])))"
  from snoc have val: "FHE_cleartext fhe (snd r) = M"
    and who: "if M = 0 then r = (0, FHE_zero fhe 16)
              else Some (fst r) = map_option bidder (find (\<lambda>x. bid_value fhe x = M) bs)"
    by (simp_all add: r_def M_def)
  have M': "M' = max (bid_value fhe b) M"
    unfolding M'_def M_def by (rule Max_with_zero_snoc)
  have gt: "FHE_gt fhe (encryptedBid b) (snd r) \<longleftrightarrow> M < bid_value fhe b"
    by (simp add: FHE_gt_def val bid_value_def)
  have step: "running_max fhe (0, FHE_zero fhe 16) (bs @ [b]) =
      (if M < bid_value fhe b then (bidder b, encryptedBid b) else r)"
    by (simp add: running_max_snoc r_def [symmetric] gt)
  have goal: "FHE_cleartext fhe (snd (running_max fhe (0, FHE_zero fhe 16) (bs @ [b]))) = M'
     \<and> (if M' = 0 then running_max fhe (0, FHE_zero fhe 16) (bs @ [b]) = (0, FHE_zero fhe 16)
         else Some (fst (running_max fhe (0, FHE_zero fhe 16) (bs @ [b]))) =
                map_option bidder (find (\<lambda>x. bid_value fhe x = M') (bs @ [b])))"
  proof (cases "M < bid_value fhe b")
    case True
    then have m: "M' = bid_value fhe b" by (auto simp: M' max_def)
    from True have nz: "bid_value fhe b \<noteq> 0" by (metis word_not_simps(1))
    have "find (\<lambda>x. bid_value fhe x = bid_value fhe b) bs = None"
    proof (simp add: find_None_iff, intro allI impI)
      fix x assume "x \<in> set bs"
      then have "bid_value fhe x \<le> M" unfolding M_def by (rule Max_with_zero_ge)
      with True show "bid_value fhe x \<noteq> bid_value fhe b" by auto
    qed
    then have "find (\<lambda>x. bid_value fhe x = M') (bs @ [b]) = Some b"
      by (simp add: find_snoc m)
    with True nz show ?thesis by (simp add: step m bid_value_def)
  next
    case False
    then have m: "M' = M" by (auto simp: M' max_def)
    show ?thesis
    proof (cases "M = 0")
      case True
      with False who val show ?thesis by (simp add: step m)
    next
      case nz: False
      with who have "Some (fst r) = map_option bidder (find (\<lambda>x. bid_value fhe x = M) bs)"
        by simp
      then obtain y where y: "find (\<lambda>x. bid_value fhe x = M) bs = Some y"
        and w: "fst r = bidder y"
        by (cases "find (\<lambda>x. bid_value fhe x = M) bs") simp_all
      from y have "find (\<lambda>x. bid_value fhe x = M) (bs @ [b]) = Some y"
        by (simp add: find_snoc)
      with False nz val w show ?thesis by (simp add: step m)
    qed
  qed
  then show ?case by (simp add: M'_def)
qed

lemma after_zero_bid_auction:
  "auctions after_zero_bid ''nft-1'' =
     \<lparr>nftId = ''nft-1'', startTime = 1000, endTime = 4600, highestBidder = 0,
      highestBid = 16, isActive = True\<rparr>"
  by (simp add: after_zero_bid_def eval_defs)

lemma after_zero_bid_ledger:
  "bids after_zero_bid ''nft-1'' = [\<lparr>bidder = 10, encryptedBid = 4, timestamp = 1100\<rparr>]"
  by (simp add: after_zero_bid_def eval_defs)

lemma after_zero_bid_exists: "auctionExists after_zero_bid ''nft-1''"
  by (simp add: after_zero_bid_def eval_defs)

lemma after_tie_run:
  "after_tie = run test_FHE deployed (scenario @ [PlaceBid 1400 13 ''nft-1'' 20484 [1]])"
  by (simp add: after_tie_def after_bids_def run_def)

lemma after_tie_auction:
  "auctions after_tie ''nft-1'' =
     \<lparr>nftId = ''nft-1'', startTime = 1000, endTime = 4600, highestBidder = 11,
      highestBid = 20482, isActive = True\<rparr>"
  by (simp add: after_tie_run scenario_def eval_defs)

lemma after_tie_ledger:
  "bids after_tie ''nft-1'' =
     [\<lparr>bidder = 10, encryptedBid = 12801, timestamp = 1100\<rparr>,
      \<lparr>bidder = 11, encryptedBid = 20482, timestamp = 1200\<rparr>,
      \<lparr>bidder = 12, encryptedBid = 7683, timestamp = 1300\<rparr>,
      \<lparr>bidder = 13, encryptedBid = 20484, timestamp = 1400\<rparr>]"
  by (simp add: after_tie_run scenario_def eval_defs)

lemma after_tie_exists: "auctionExists after_tie ''nft-1''"
  by (simp add: after_tie_run scenario_def eval_defs)

lemma test_zero: "FHE_cleartext test_FHE (FHE_zero test_FHE 16) = 0"
  by (simp add: test_FHE_def mock_FHE_def high_bits_def)

text \<open>
  C1, as amended. For every auction of a reachable state, whose ledger holds the bids
  accepted within its time window, in order: if at least one accepted bid has a
  non-zero plaintext, the stored highest-bid handle decrypts to the maximal plaintext
  among all accepted bids and the recorded highest bidder is the bidder of the first
  accepted bid that has this maximal plaintext (the update is on strictly greater, so
  an equal later bid does not replace it); if every accepted bid has plaintext 0, or
  there is none, no bid is strictly greater than the encrypted zero the auction starts
  with, and the highest bidder stays the zero address.
\<close>

theorem highest_bidder_first_maximum:
  assumes "FHE_cleartext fhe (FHE_zero fhe 16) = 0"
    and "s = run fhe deployed ts" and "auctionExists s i"
  shows "((\<exists>b\<in>set (bids s i). bid_value fhe b \<noteq> 0) \<longrightarrow>
            FHE_cleartext fhe (highestBid (auctions s i)) = max_bid_value fhe (bids s i)
            \<and> Some (highestBidder (auctions s i)) = first_max_bidder fhe (bids s i))
       \<and> ((\<forall>b\<in>set (bids s i). bid_value fhe b = 0) \<longrightarrow>
            highestBidder (auctions s i) = 0 \<and> highestBid (auctions s i) = FHE_zero fhe 16)"
proof -
  define M where "M = Max (insert 0 (bid_value fhe ` set (bids s i)))"
  from reachable_follows [of fhe ts] assms(2,3)
  have reg: "(highestBidder (auctions s i), highestBid (auctions s i)) =
      running_max fhe (0, FHE_zero fhe 16) (bids s i)"
    by (simp add: registry_follows_ledger_def split: if_splits)
  from reg have rm: "running_max fhe (0, FHE_zero fhe 16) (bids s i) =
      (highestBidder (auctions s i), highestBid (auctions s i))"
    by simp
  from running_max_first_maximum [OF assms(1), of "bids s i", unfolded rm fst_conv snd_conv]
  have both: "FHE_cleartext fhe (highestBid (auctions s i)) = M
    \<and> (if M = 0
       then (highestBidder (auctions s i), highestBid (auctions s i)) = (0, FHE_zero fhe 16)
       else Some (highestBidder (auctions s i)) =
              map_option bidder (find (\<lambda>b. bid_value fhe b = M) (bids s i)))"
    unfolding M_def .
  from both have val: "FHE_cleartext fhe (highestBid (auctions s i)) = M" ..
  from both have who: "if M = 0
       then (highestBidder (auctions s i), highestBid (auctions s i)) = (0, FHE_zero fhe 16)
       else Some (highestBidder (auctions s i)) =
              map_option bidder (find (\<lambda>b. bid_value fhe b = M) (bids s i))" ..
  have some: "(\<exists>b\<in>set (bids s i). bid_value fhe b \<noteq> 0) \<longrightarrow>
            FHE_cleartext fhe (highestBid (auctions s i)) = max_bid_value fhe (bids s i)
            \<and> Some (highestBidder (auctions s i)) = first_max_bidder fhe (bids s i)"
  proof
    assume nz: "\<exists>b\<in>set (bids s i). bid_value fhe b \<noteq> 0"
    then have "bids s i \<noteq> []" by auto
    then have m: "M = max_bid_value fhe (bids s i)"
      unfolding M_def max_bid_value_def by (rule Max_with_zero_eq)
    from nz have "M \<noteq> 0" by (simp add: M_def Max_with_zero_is_zero)
    with who val m
    show "FHE_cleartext fhe (highestBid (auctions s i)) = max_bid_value fhe (bids s i)
            \<and> Some (highestBidder (auctions s i)) = first_max_bidder fhe (bids s i)"
      by (simp add: first_max_bidder_def)
  qed
  have none: "(\<forall>b\<in>set (bids s i). bid_value fhe b = 0) \<longrightarrow>
            highestBidder (auctions s i) = 0 \<and> highestBid (auctions s i) = FHE_zero fhe 16"
  proof
    assume "\<forall>b\<in>set (bids s i). bid_value fhe b = 0"
    then have "M = 0" by (simp add: M_def Max_with_zero_is_zero)
    with who
    show "highestBidder (auctions s i) = 0 \<and> highestBid (auctions s i) = FHE_zero fhe 16"
      by simp
  qed
  from some none show ?thesis by (rule conjI)
qed

theorem highest_bidder_first_maximum_witness:
  "max_bid_value test_FHE (bids after_tie ''nft-1'') = 80
   \<and> FHE_cleartext test_FHE (highestBid (auctions after_tie ''nft-1'')) = 80
   \<and> first_max_bidder test_FHE (bids after_tie ''nft-1'') = Some 11
   \<and> highestBidder (auctions after_tie ''nft-1'') = 11
   \<and> highestBidder (auctions after_zero_bid ''nft-1'') = 0
   \<and> highestBid (auctions after_zero_bid ''nft-1'') = FHE_zero test_FHE 16"
proof -
  have v: "map (bid_value test_FHE) (bids after_tie ''nft-1'') = [50, 80, 30, 80]"
    by (simp add: after_tie_ledger bid_value_def test_FHE_def mock_FHE_def high_bits_def)
  have m: "max_bid_value test_FHE (bids after_tie ''nft-1'') = 80"
    by (simp add: max_bid_value_def after_tie_ledger bid_value_def test_FHE_def mock_FHE_def
          high_bits_def)
  have nz: "\<exists>b\<in>set (bids after_tie ''nft-1''). bid_value test_FHE b \<noteq> 0"
    by (simp add: after_tie_ledger bid_value_def test_FHE_def mock_FHE_def high_bits_def)
  have z: "\<forall>b\<in>set (bids after_zero_bid ''nft-1''). bid_value test_FHE b = 0"
    by (simp add: after_zero_bid_ledger bid_value_def test_FHE_def mock_FHE_def high_bits_def)
  from highest_bidder_first_maximum [OF test_zero after_tie_run after_tie_exists]
    highest_bidder_first_maximum [OF test_zero after_zero_bid_def after_zero_bid_exists]
    nz z m
  show ?thesis by (simp add: after_tie_auction)
qed

text \<open>
  One accepted bid, of plaintext 0, by bidder 10: bidder 10 has the maximal plaintext
  among the accepted bids and is the first to have it, and the recorded highest bidder
  is the zero address.
\<close>

theorem highest_bidder_first_maximum_counterexample:
  "bids after_zero_bid ''nft-1'' = [\<lparr>bidder = 10, encryptedBid = 4, timestamp = 1100\<rparr>]
   \<and> max_bid_value test_FHE (bids after_zero_bid ''nft-1'') = 0
   \<and> first_max_bidder test_FHE (bids after_zero_bid ''nft-1'') = Some 10
   \<and> highestBidder (auctions after_zero_bid ''nft-1'') = 0"
  by (simp add: after_zero_bid_ledger after_zero_bid_auction first_max_bidder_def
        max_bid_value_def bid_value_def test_FHE_def mock_FHE_def high_bits_def)

subsection \<open>Bidders of the ledger\<close>

lemma commit_bidders:
  assumes "\<forall>b\<in>set (bids s j). bidder b \<noteq> 0" "bid_sender t \<noteq> Some 0"
  shows "\<forall>b\<in>set (bids (commit fhe s t) j). bidder b \<noteq> 0"
proof (cases t)
  case (CreateAuction now i d)
  with assms show ?thesis by (simp add: commit_snd createAuction_bids)
next
  case (PlaceBid now sender i c p)
  show ?thesis
  proof (cases "fst (placeBid fhe now sender i c p s) = None")
    case True
    from placeBid_success [OF True] obtain v where
      v: "onlyActiveAuction now i s = None" "FHE_fromExternal fhe c p = Some v"
         "FHE_isInitialized v"
      by blast
    from assms PlaceBid show ?thesis by (simp add: commit_snd placeBid_ok [OF v])
  next
    case False
    with assms show ?thesis by (simp add: PlaceBid commit_snd placeBid_revert)
  qed
next
  case (ConcludeAuction now i clear p)
  with assms show ?thesis by (simp add: commit_snd concludeAuction_bids)
qed

lemma run_bidders:
  "senders_nonzero ts \<Longrightarrow> \<forall>b\<in>set (bids (run fhe deployed ts) j). bidder b \<noteq> 0"
proof (induction ts rule: rev_induct)
  case Nil
  show ?case by (simp add: run_Nil deployed_def)
next
  case (snoc t ts)
  from snoc.prems have ts: "senders_nonzero ts" and t: "bid_sender t \<noteq> Some 0"
    by (auto simp: senders_nonzero_def)
  from commit_bidders [OF snoc.IH [OF ts] t] show ?case by (simp add: run_snoc)
qed

text \<open>
  C7, as amended. For every registered auction of every reachable state (bids being
  sent from non-zero addresses, and the encrypted zero an auction starts with decrypting
  to 0), the highest bidder field is non-null if and only if at least one bid with a
  non-zero plaintext has been accepted for that auction. In particular a non-null
  highest bidder implies that a bid has been accepted; an accepted bid of plaintext 0
  leaves the field null.
\<close>

theorem highest_bidder_nonzero_iff:
  assumes "FHE_cleartext fhe (FHE_zero fhe 16) = 0" and "senders_nonzero ts"
    and "s = run fhe deployed ts" and "auctionExists s i"
  shows "(highestBidder (auctions s i) \<noteq> 0 \<longleftrightarrow> (\<exists>b\<in>set (bids s i). bid_value fhe b \<noteq> 0))
    \<and> (highestBidder (auctions s i) \<noteq> 0 \<longrightarrow> bids s i \<noteq> [])"
proof -
  define M where "M = Max (insert 0 (bid_value fhe ` set (bids s i)))"
  have M0: "M = 0 \<longleftrightarrow> (\<forall>b\<in>set (bids s i). bid_value fhe b = 0)"
    unfolding M_def by (rule Max_with_zero_is_zero)
  from reachable_follows [of fhe ts] assms(3,4)
  have rm: "running_max fhe (0, FHE_zero fhe 16) (bids s i) =
      (highestBidder (auctions s i), highestBid (auctions s i))"
    by (simp add: registry_follows_ledger_def split: if_splits)
  from running_max_first_maximum [OF assms(1), of "bids s i", unfolded rm fst_conv snd_conv]
  have who: "if M = 0
       then (highestBidder (auctions s i), highestBid (auctions s i)) = (0, FHE_zero fhe 16)
       else Some (highestBidder (auctions s i)) =
              map_option bidder (find (\<lambda>b. bid_value fhe b = M) (bids s i))"
    unfolding M_def ..
  have iff: "highestBidder (auctions s i) \<noteq> 0 \<longleftrightarrow> M \<noteq> 0"
  proof (cases "M = 0")
    case True
    with who show ?thesis by simp
  next
    case False
    with who have "Some (highestBidder (auctions s i)) =
        map_option bidder (find (\<lambda>b. bid_value fhe b = M) (bids s i))"
      by simp
    then obtain y where y: "find (\<lambda>b. bid_value fhe b = M) (bids s i) = Some y"
      and w: "highestBidder (auctions s i) = bidder y"
      by (cases "find (\<lambda>b. bid_value fhe b = M) (bids s i)") simp_all
    from y have "y \<in> set (bids s i)" by (auto simp: find_Some_iff)
    with run_bidders [OF assms(2), of fhe i] assms(3) have "bidder y \<noteq> 0" by simp
    with w False show ?thesis by simp
  qed
  have first: "highestBidder (auctions s i) \<noteq> 0 \<longleftrightarrow> (\<exists>b\<in>set (bids s i). bid_value fhe b \<noteq> 0)"
    using iff M0 by simp
  then have second: "highestBidder (auctions s i) \<noteq> 0 \<longrightarrow> bids s i \<noteq> []"
    by auto
  from first second show ?thesis by (rule conjI)
qed

theorem highest_bidder_nonzero_iff_witness:
  "highestBidder (auctions after_bids ''nft-1'') \<noteq> 0
   \<and> (\<exists>b\<in>set (bids after_bids ''nft-1''). bid_value test_FHE b \<noteq> 0)
   \<and> bids after_bids ''nft-1'' \<noteq> []"
proof -
  have nz: "senders_nonzero scenario"
    by (simp add: senders_nonzero_def scenario_def)
  have hb: "highestBidder (auctions after_bids ''nft-1'') \<noteq> 0"
    by (simp add: after_bids_auction)
  from highest_bidder_nonzero_iff [OF test_zero nz after_bids_def after_bids_exists] hb
  show ?thesis by simp
qed

text \<open>
  One bid, of plaintext 0, has been accepted for the registered auction \<open>nft-1\<close>, and
  its highest bidder is the zero address.
\<close>

theorem highest_bidder_nonzero_iff_counterexample:
  "auctionExists after_zero_bid ''nft-1''
   \<and> after_zero_bid = run test_FHE deployed
       [CreateAuction 1000 ''nft-1'' 3600, PlaceBid 1100 10 ''nft-1'' 4 [1]]
   \<and> fst (placeBid test_FHE 1100 10 ''nft-1'' 4 [1] after_create) = None
   \<and> getBidCount ''nft-1'' after_zero_bid = Inr 1
   \<and> highestBidder (auctions after_zero_bid ''nft-1'') = 0"
proof -
  have ok: "fst (placeBid test_FHE 1100 10 ''nft-1'' 4 [1] after_create) = None"
    by (simp add: after_create_def eval_defs)
  have c: "getBidCount ''nft-1'' after_zero_bid = Inr 1"
    by (simp add: getBidCount_def after_zero_bid_exists after_zero_bid_ledger)
  have h: "highestBidder (auctions after_zero_bid ''nft-1'') = 0"
    by (simp add: after_zero_bid_auction)
  from after_zero_bid_exists after_zero_bid_def ok c h show ?thesis by (intro conjI)
qed

section \<open>What a bid's control flow depends on\<close>

lemma after_first_bid_auction:
  "auctions after_first_bid ''nft-1'' =
     \<lparr>nftId = ''nft-1'', startTime = 1000, endTime = 4600, highestBidder = 10,
      highestBid = 12801, isActive = True\<rparr>"
  by (simp add: after_first_bid_def eval_defs)

lemma after_first_bid_exists: "auctionExists after_first_bid ''nft-1''"
  by (simp add: after_first_bid_def eval_defs)

text \<open>
  C2, as amended. Take two runs of \<^verbatim>\<open>placeBid\<close> on the same storage with the same
  arguments, under two libraries that return the same handle for the submitted
  ciphertext and differ in the plaintexts underlying the handles. The two runs pass or
  fail the same checks with the same error, append the same ledger entry, grant the
  same permissions and emit the same event. The replacement of the highest-bid handle
  and bidder is not a homomorphic selection: it is a branch on the result of the
  encrypted comparison, taken exactly when the plaintext of the new bid is strictly
  greater than the plaintext of the stored highest bid. It is the only step that
  depends on plaintexts: when the comparison has the same result in the two runs, they
  end in the same state.
\<close>

theorem placeBid_plaintext_dependence:
  assumes "FHE_fromExternal fhe1 c p = FHE_fromExternal fhe2 c p"
  shows "fst (placeBid fhe1 now sender i c p s) = fst (placeBid fhe2 now sender i c p s)
    \<and> bids (snd (placeBid fhe1 now sender i c p s)) = bids (snd (placeBid fhe2 now sender i c p s))
    \<and> events (snd (placeBid fhe1 now sender i c p s))
        = events (snd (placeBid fhe2 now sender i c p s))
    \<and> acl_allowThis (snd (placeBid fhe1 now sender i c p s))
        = acl_allowThis (snd (placeBid fhe2 now sender i c p s))
    \<and> acl_publiclyDecryptable (snd (placeBid fhe1 now sender i c p s))
        = acl_publiclyDecryptable (snd (placeBid fhe2 now sender i c p s))
    \<and> (fst (placeBid fhe1 now sender i c p s) = None \<longrightarrow>
         (\<exists>v. FHE_fromExternal fhe1 c p = Some v
            \<and> outbids fhe1 v i s
                = (FHE_cleartext fhe1 (highestBid (auctions s i)) < FHE_cleartext fhe1 v)
            \<and> auctions (snd (placeBid fhe1 now sender i c p s)) =
                (if outbids fhe1 v i s
                 then (auctions s)(i := (auctions s i)\<lparr>highestBid := v, highestBidder := sender\<rparr>)
                 else auctions s)))
    \<and> ((\<forall>v. FHE_fromExternal fhe1 c p = Some v \<longrightarrow> outbids fhe1 v i s = outbids fhe2 v i s)
         \<longrightarrow> placeBid fhe1 now sender i c p s = placeBid fhe2 now sender i c p s)"
proof (cases "onlyActiveAuction now i s")
  case (Some e)
  then show ?thesis by (simp add: placeBid_def)
next
  case None
  show ?thesis
  proof (cases "FHE_fromExternal fhe1 c p")
    case no_handle: None
    with None assms show ?thesis by (simp add: placeBid_def)
  next
    case (Some v)
    with assms have v2: "FHE_fromExternal fhe2 c p = Some v" by simp
    show ?thesis
    proof (cases "FHE_isInitialized v")
      case False
      with None Some v2 show ?thesis by (simp add: placeBid_def)
    next
      case True
      note r1 = placeBid_ok [OF None Some True, where sender = sender]
      note r2 = placeBid_ok [OF None v2 True, where sender = sender]
      show ?thesis
        by (simp add: r1 r2 Some outbids_def FHE_gt_def)
    qed
  qed
qed

theorem placeBid_plaintext_dependence_witness:
  "placeBid test_FHE 1300 12 ''nft-1'' 7683 [1] after_first_bid
     = placeBid (mock_FHE (high_bits(7683 := 40))) 1300 12 ''nft-1'' 7683 [1] after_first_bid
   \<and> fst (placeBid test_FHE 1300 12 ''nft-1'' 7683 [1] after_first_bid) = None
   \<and> \<not> outbids test_FHE 7683 ''nft-1'' after_first_bid
   \<and> auctions (snd (placeBid test_FHE 1300 12 ''nft-1'' 7683 [1] after_first_bid))
       = auctions after_first_bid"
proof -
  have same: "FHE_fromExternal test_FHE 7683 [1]
      = FHE_fromExternal (mock_FHE (high_bits(7683 := 40))) 7683 [1]"
    by (simp add: test_FHE_def mock_FHE_def)
  have v: "FHE_fromExternal test_FHE 7683 [1] = Some 7683"
    by (simp add: test_FHE_def mock_FHE_def)
  have o1: "\<not> outbids test_FHE 7683 ''nft-1'' after_first_bid"
    by (simp add: outbids_def FHE_gt_def after_first_bid_auction test_FHE_def mock_FHE_def
          high_bits_def)
  have o2: "\<not> outbids (mock_FHE (high_bits(7683 := 40))) 7683 ''nft-1'' after_first_bid"
    by (simp add: outbids_def FHE_gt_def after_first_bid_auction mock_FHE_def high_bits_def)
  have ok: "fst (placeBid test_FHE 1300 12 ''nft-1'' 7683 [1] after_first_bid) = None"
    by (simp add: placeBid_def onlyActiveAuction_def after_first_bid_exists
          after_first_bid_auction v FHE_isInitialized_def Let_def)
  note dep = placeBid_plaintext_dependence [OF same, of 1300 12 "''nft-1''" after_first_bid]
  from dep have eq: "placeBid test_FHE 1300 12 ''nft-1'' 7683 [1] after_first_bid
     = placeBid (mock_FHE (high_bits(7683 := 40))) 1300 12 ''nft-1'' 7683 [1] after_first_bid"
    using v o1 o2 by simp
  from dep have au: "auctions (snd (placeBid test_FHE 1300 12 ''nft-1'' 7683 [1] after_first_bid))
       = auctions after_first_bid"
    using v o1 ok by simp
  from eq ok o1 au show ?thesis by (intro conjI)
qed

text \<open>
  Bidder 11 submits the handle 20482 after bidder 10's bid of 50. Where the handle
  decrypts to 80 the branch is taken and bidder 11 becomes the highest bidder; where the
  same handle decrypts to 40 the branch is not taken and bidder 10 stays.
\<close>

theorem placeBid_plaintext_dependence_counterexample:
  "FHE_fromExternal test_FHE 20482 [1] = FHE_fromExternal (mock_FHE (high_bits(20482 := 40))) 20482 [1]
   \<and> outbids test_FHE 20482 ''nft-1'' after_first_bid
   \<and> \<not> outbids (mock_FHE (high_bits(20482 := 40))) 20482 ''nft-1'' after_first_bid
   \<and> highestBidder (auctions (snd (placeBid test_FHE 1200 11 ''nft-1'' 20482 [1]
        after_first_bid)) ''nft-1'') = 11
   \<and> highestBidder (auctions (snd (placeBid (mock_FHE (high_bits(20482 := 40))) 1200 11
        ''nft-1'' 20482 [1] after_first_bid)) ''nft-1'') = 10"
  by (simp add: placeBid_def onlyActiveAuction_def outbids_def FHE_gt_def
        FHE_isInitialized_def after_first_bid_exists after_first_bid_auction test_FHE_def
        mock_FHE_def high_bits_def Let_def)

end
